theory Spec2Isabelle
  imports Complex_Main
begin

section \<open>Python values used by the bot\<close>

text \<open>
  Python floats are modelled as \<^typ>\<open>real\<close>: the properties below are about which
  branch the code takes and which expression it stores, not about rounding. Python
  exceptions are values of \<open>py_error\<close>; a function that can raise returns
  \<open>py_error + 'a\<close> with \<open>Inl\<close> for the exception.
\<close>

datatype py_error = ZeroDivisionError | RuntimeError | ValueError | TypeError

text \<open>\<^verbatim>\<open>a / b\<close> on floats raises ZeroDivisionError when \<open>b\<close> is zero.\<close>

definition py_truediv :: "real \<Rightarrow> real \<Rightarrow> py_error + real" where
  "py_truediv a b = (if b = 0 then Inl ZeroDivisionError else Inr (a / b))"

text \<open>
  The slice \<^verbatim>\<open>xs[i:]\<close>: a negative start counts from the end and is clipped at the
  beginning of the list (\<^verbatim>\<open>xs[-0:]\<close> is the whole list).
\<close>

definition slice_from :: "'a list \<Rightarrow> int \<Rightarrow> 'a list" where
  "slice_from xs i =
     (if i < 0 then drop (length xs - nat (- i)) xs else drop (nat i) xs)"

section \<open>backtest\_engine.py\<close>

subsection \<open>Candles and strategy parameters\<close>

record candle =
  close :: real
  high :: real
  low :: real
  volume :: real
  time :: int

text \<open>
  A strategy is a dict read with \<^verbatim>\<open>strategy.get(key, default)\<close>; an absent key is
  \<open>None\<close>. The last three keys are written by the evolver and never read by the engine.
\<close>

record strategy =
  rsi_period :: "int option"
  rsi_low :: "real option"
  rsi_high :: "real option"
  vol_mult :: "real option"
  vol_lookback :: "int option"
  stop_atr_mult :: "real option"
  tp_percent :: "real option"

definition dict_get :: "'a option \<Rightarrow> 'a \<Rightarrow> 'a" where
  "dict_get v d = (case v of None \<Rightarrow> d | Some x \<Rightarrow> x)"

subsection \<open>\_calculate\_rsi\<close>

text \<open>
  The loop \<^verbatim>\<open>for i in range(1, len(candles))\<close> of \<^verbatim>\<open>_calculate_rsi\<close>, appending to
  \<^verbatim>\<open>gains\<close> and \<^verbatim>\<open>losses\<close>; the head of the list is \<^verbatim>\<open>candles[i-1]\<close>.
\<close>

fun rsi_loop :: "candle list \<Rightarrow> real list \<Rightarrow> real list \<Rightarrow> real list \<times> real list" where
  "rsi_loop (c0 # c1 # cs) gains losses =
     (let change = close c1 - close c0 in
      if change > 0 then rsi_loop (c1 # cs) (gains @ [change]) (losses @ [0])
      else rsi_loop (c1 # cs) (gains @ [0]) (losses @ [\<bar>change\<bar>]))"
| "rsi_loop cs gains losses = (gains, losses)"

text \<open>\<^verbatim>\<open>avg_gain\<close> and \<^verbatim>\<open>avg_loss\<close>, lines 119 and 120.\<close>

definition rsi_avg_gain :: "candle list \<Rightarrow> int \<Rightarrow> py_error + real" where
  "rsi_avg_gain candles period =
     py_truediv (sum_list (slice_from (fst (rsi_loop candles [] [])) (- period)))
       (real_of_int period)"

definition rsi_avg_loss :: "candle list \<Rightarrow> int \<Rightarrow> py_error + real" where
  "rsi_avg_loss candles period =
     py_truediv (sum_list (slice_from (snd (rsi_loop candles [] [])) (- period)))
       (real_of_int period)"

definition calculate_rsi :: "candle list \<Rightarrow> int \<Rightarrow> py_error + real" where
  "calculate_rsi candles period =
     (if int (length candles) < period + 1 then Inr 50
      else
        case rsi_avg_gain candles period of
          Inl e \<Rightarrow> Inl e
        | Inr avg_gain \<Rightarrow>
            (case rsi_avg_loss candles period of
               Inl e \<Rightarrow> Inl e
             | Inr avg_loss \<Rightarrow>
                 if avg_loss = 0 then Inr 100
                 else
                   (case py_truediv avg_gain avg_loss of
                      Inl e \<Rightarrow> Inl e
                    | Inr rs \<Rightarrow>
                        (case py_truediv 100 (1 + rs) of
                           Inl e \<Rightarrow> Inl e
                         | Inr q \<Rightarrow> Inr (100 - q)))))"

subsection \<open>\_check\_signal\<close>

datatype signal = BUY | HOLD

definition FEES_swap :: real where "FEES_swap = 0.003"
definition FEES_slippage :: real where "FEES_slippage = 0.005"
definition FEES_network :: real where "FEES_network = 0.000005"

definition check_signal :: "candle \<Rightarrow> strategy \<Rightarrow> candle list \<Rightarrow> py_error + signal" where
  "check_signal candle strat history =
     (if history = [] then Inr HOLD
      else
        case calculate_rsi (history @ [candle]) (dict_get (rsi_period strat) 14) of
          Inl e \<Rightarrow> Inl e
        | Inr rsi \<Rightarrow>
            (let lo = dict_get (rsi_low strat) 57;
                 hi = dict_get (rsi_high strat) 63;
                 avg_vol = (if length history \<ge> 20
                            then sum_list (map volume (slice_from history (- 20))) / 20
                            else volume candle);
                 vm = dict_get (vol_mult strat) 1.38
             in if lo \<le> rsi \<and> rsi \<le> hi \<and> volume candle > avg_vol * vm
                then Inr BUY else Inr HOLD))"

subsection \<open>BacktestEngine.run\<close>

text \<open>The dict stored in the local variable \<^verbatim>\<open>position\<close> (its \<^verbatim>\<open>'type'\<close> is always \<^verbatim>\<open>'long'\<close>).\<close>

record bt_position =
  entry :: real
  qty :: real
  fees :: real
  sl :: real
  tp :: real

datatype exit_type = SL | TP

record bt_trade =
  trade_entry :: real
  trade_exit :: real
  trade_pnl :: real
  trade_type :: exit_type
  trade_timestamp :: int

text \<open>The fields set by \<^verbatim>\<open>__init__\<close>.\<close>

record engine =
  capital :: real
  self_trades :: "bt_trade list"
  equity_curve :: "real list"

text \<open>The three locals of \<^verbatim>\<open>run\<close>: \<^verbatim>\<open>position\<close> (\<open>None\<close> or one dict), \<^verbatim>\<open>trades\<close>, \<^verbatim>\<open>equity\<close>.\<close>

record run_state =
  position :: "bt_position option"
  trades :: "bt_trade list"
  equity :: real

text \<open>
  One iteration of the loop of \<^verbatim>\<open>run\<close> for \<^verbatim>\<open>candle = candles[i]\<close> and
  \<^verbatim>\<open>history = candles[:i]\<close>. A dict is truthy, so \<^verbatim>\<open>not position\<close> is
  \<open>position = None\<close>. The division for \<^verbatim>\<open>qty\<close> raises when the entry price is 0.
\<close>

definition run_step ::
  "engine \<Rightarrow> strategy \<Rightarrow> candle list \<Rightarrow> candle \<Rightarrow> run_state \<Rightarrow> py_error + run_state" where
  "run_step self strat history candle st =
     (case check_signal candle strat history of
        Inl e \<Rightarrow> Inl e
      | Inr sig \<Rightarrow>
          if sig = BUY \<and> position st = None then
            (let entry' = close candle * (1 + FEES_slippage) in
             case py_truediv (capital self * 0.1) entry' of
               Inl e \<Rightarrow> Inl e
             | Inr qty' \<Rightarrow>
                 (let fees' = (qty' * entry' * FEES_swap) + FEES_network in
                  Inr (st\<lparr>position := Some \<lparr>entry = entry', qty = qty', fees = fees',
                                             sl = entry' * 0.85, tp = entry' * 1.30\<rparr>\<rparr>)))
          else
            (case position st of
               None \<Rightarrow> Inr st
             | Some p \<Rightarrow>
                 if low candle \<le> sl p then
                   (let pnl = (sl p - entry p) * qty p - fees p in
                    Inr \<lparr>position = None,
                         trades = trades st @
                           [\<lparr>trade_entry = entry p, trade_exit = sl p, trade_pnl = pnl,
                             trade_type = SL, trade_timestamp = time candle\<rparr>],
                         equity = equity st + pnl\<rparr>)
                 else if high candle \<ge> tp p then
                   (let pnl = (tp p - entry p) * qty p - fees p in
                    Inr \<lparr>position = None,
                         trades = trades st @
                           [\<lparr>trade_entry = entry p, trade_exit = tp p, trade_pnl = pnl,
                             trade_type = TP, trade_timestamp = time candle\<rparr>],
                         equity = equity st + pnl\<rparr>)
                 else Inr st))"

text \<open>\<^verbatim>\<open>for i, candle in enumerate(candles)\<close>: \<open>history\<close> holds the candles already seen.\<close>

fun run_loop ::
  "engine \<Rightarrow> strategy \<Rightarrow> candle list \<Rightarrow> candle list \<Rightarrow> run_state \<Rightarrow> py_error + run_state" where
  "run_loop self strat history [] st = Inr st"
| "run_loop self strat history (candle # rest) st =
     (case run_step self strat history candle st of
        Inl e \<Rightarrow> Inl e
      | Inr st' \<Rightarrow> run_loop self strat (history @ [candle]) rest st')"

definition run_init :: "engine \<Rightarrow> run_state" where
  "run_init self = \<lparr>position = None, trades = [], equity = capital self\<rparr>"

record bt_result =
  total_trades :: nat
  winning_trades :: nat
  win_rate :: real
  total_pnl :: real
  final_equity :: real
  result_trades :: "bt_trade list"

text \<open>
  \<^verbatim>\<open>run\<close> returns the result dict; the engine object is returned beside it, as the
  method leaves it.
\<close>

definition run :: "engine \<Rightarrow> candle list \<Rightarrow> strategy \<Rightarrow> (py_error + bt_result) \<times> engine" where
  "run self candles strat =
     (case run_loop self strat [] candles (run_init self) of
        Inl e \<Rightarrow> (Inl e, self)
      | Inr st \<Rightarrow>
          (let wins = length (filter (\<lambda>t. trade_pnl t > 0) (trades st)) in
           (Inr \<lparr>total_trades = length (trades st),
                 winning_trades = wins,
                 win_rate = (if trades st \<noteq> [] then real wins / real (length (trades st)) else 0),
                 total_pnl = equity st - capital self,
                 final_equity = equity st,
                 result_trades = trades st\<rparr>, self)))"

subsection \<open>A small backtest used to instantiate the theorems\<close>

definition ex_strategy :: strategy where
  "ex_strategy = \<lparr>rsi_period = Some 2, rsi_low = Some 0, rsi_high = Some 100,
                   vol_mult = Some 0.5, vol_lookback = None,
                   stop_atr_mult = Some 1.85, tp_percent = Some 0.28\<rparr>"

definition ex_engine :: engine where
  "ex_engine = \<lparr>capital = 1000, self_trades = [], equity_curve = []\<rparr>"

definition ex_candles :: "candle list" where
  "ex_candles =
     [\<lparr>close = 200, high = 200, low = 200, volume = 10, time = 0\<rparr>,
      \<lparr>close = 200, high = 200, low = 200, volume = 10, time = 1\<rparr>,
      \<lparr>close = 200, high = 300, low = 100, volume = 10, time = 2\<rparr>]"

definition ex_position :: bt_position where
  "ex_position = \<lparr>entry = 201, qty = 100 / 201, fees = 0.300005, sl = 170.85, tp = 261.3\<rparr>"

definition ex_long :: run_state where
  "ex_long = \<lparr>position = Some ex_position, trades = [], equity = 1000\<rparr>"

definition ex_closed :: run_state where
  "ex_closed =
     \<lparr>position = None,
      trades = [\<lparr>trade_entry = 201, trade_exit = 170.85, trade_pnl = - 15.300005,
                 trade_type = SL, trade_timestamp = 2\<rparr>],
      equity = 984.699995\<rparr>"

section \<open>trade\_manager.py\<close>

subsection \<open>Python dicts and JSON values\<close>

text \<open>
  A Python dict keeps insertion order: it is an association list with distinct keys.
  \<open>dict_setitem\<close> is \<^verbatim>\<open>d[k] = v\<close> (an existing key keeps its place, a new key goes to the
  end) and \<open>dict_delitem\<close> is \<^verbatim>\<open>del d[k]\<close> for a key that is present.
\<close>

fun dict_setitem :: "('k \<times> 'v) list \<Rightarrow> 'k \<Rightarrow> 'v \<Rightarrow> ('k \<times> 'v) list" where
  "dict_setitem [] k v = [(k, v)]"
| "dict_setitem ((k', v') # kvs) k v =
     (if k' = k then (k, v) # kvs else (k', v') # dict_setitem kvs k v)"

definition dict_delitem :: "('k \<times> 'v) list \<Rightarrow> 'k \<Rightarrow> ('k \<times> 'v) list" where
  "dict_delitem kvs k = filter (\<lambda>kv. fst kv \<noteq> k) kvs"

text \<open>
  What \<^verbatim>\<open>json.dump\<close> writes and \<^verbatim>\<open>json.load\<close> reads back: the file holds the JSON value
  (numbers, strings and objects are all the bot stores).
\<close>

datatype json = JNum real | JStr string | JObj "(string \<times> json) list"

text \<open>\<^verbatim>\<open>int(x)\<close> on a float truncates towards zero.\<close>

definition py_int :: "real \<Rightarrow> int" where
  "py_int x = (if 0 \<le> x then \<lfloor>x\<rfloor> else \<lceil>x\<rceil>)"

subsection \<open>Position\<close>

record Position =
  mint :: string
  symbol :: string
  entry_price_usd :: real
  entry_time :: real
  position_size_usdc :: real
  token_amount :: real
  stop_loss_price :: real
  take_profit_price :: real
  current_price_usd :: real
  realized_pnl_usd :: real

definition should_stop_loss :: "Position \<Rightarrow> bool" where
  "should_stop_loss self = (current_price_usd self \<le> stop_loss_price self)"

definition should_take_profit :: "Position \<Rightarrow> bool" where
  "should_take_profit self = (current_price_usd self \<ge> take_profit_price self)"

text \<open>
  The computed properties. \<^verbatim>\<open>unrealized_pnl_percent\<close> divides by \<^verbatim>\<open>position_size_usdc\<close>
  and raises ZeroDivisionError when that is 0. \<^verbatim>\<open>__str__\<close> formats it, so \<^verbatim>\<open>str(position)\<close>
  raises in the same case; \<open>Position_str\<close> keeps of the string only whether it can be built.
\<close>

definition current_value_usd :: "Position \<Rightarrow> real" where
  "current_value_usd self = token_amount self * current_price_usd self"

definition unrealized_pnl_usd :: "Position \<Rightarrow> real" where
  "unrealized_pnl_usd self = current_value_usd self - position_size_usdc self"

definition unrealized_pnl_percent :: "Position \<Rightarrow> py_error + real" where
  "unrealized_pnl_percent self =
     (case py_truediv (unrealized_pnl_usd self) (position_size_usdc self) of
        Inl e \<Rightarrow> Inl e
      | Inr q \<Rightarrow> Inr (q * 100))"

definition Position_str :: "Position \<Rightarrow> py_error + unit" where
  "Position_str self =
     (case unrealized_pnl_percent self of Inl e \<Rightarrow> Inl e | Inr pct \<Rightarrow> Inr ())"

text \<open>\<^verbatim>\<open>asdict(self)\<close>: one entry per field, in field order.\<close>

definition to_dict :: "Position \<Rightarrow> json" where
  "to_dict self =
     JObj [(''mint'', JStr (mint self)),
           (''symbol'', JStr (symbol self)),
           (''entry_price_usd'', JNum (entry_price_usd self)),
           (''entry_time'', JNum (entry_time self)),
           (''position_size_usdc'', JNum (position_size_usdc self)),
           (''token_amount'', JNum (token_amount self)),
           (''stop_loss_price'', JNum (stop_loss_price self)),
           (''take_profit_price'', JNum (take_profit_price self)),
           (''current_price_usd'', JNum (current_price_usd self)),
           (''realized_pnl_usd'', JNum (realized_pnl_usd self))]"

definition Position_fields :: "string list" where
  "Position_fields =
     [''mint'', ''symbol'', ''entry_price_usd'', ''entry_time'', ''position_size_usdc'',
      ''token_amount'', ''stop_loss_price'', ''take_profit_price'', ''current_price_usd'',
      ''realized_pnl_usd'']"

definition json_str :: "(string \<times> json) list \<Rightarrow> string \<Rightarrow> string option" where
  "json_str kvs k = (case map_of kvs k of Some (JStr s) \<Rightarrow> Some s | _ \<Rightarrow> None)"

definition json_num :: "(string \<times> json) list \<Rightarrow> string \<Rightarrow> real option" where
  "json_num kvs k = (case map_of kvs k of Some (JNum x) \<Rightarrow> Some x | _ \<Rightarrow> None)"

text \<open>
  \<^verbatim>\<open>cls(**data)\<close>: the keyword arguments must be exactly the ten fields, otherwise the
  constructor raises TypeError. The record is typed, so a value of another JSON type than
  the field's (which Python would store unchecked) is rejected here as well.
\<close>

definition from_dict :: "json \<Rightarrow> py_error + Position" where
  "from_dict data =
     (case data of
        JObj kvs \<Rightarrow>
          if set (map fst kvs) \<noteq> set Position_fields then Inl TypeError
          else
            (case
               Option.bind (json_str kvs ''mint'') (\<lambda>a1.
               Option.bind (json_str kvs ''symbol'') (\<lambda>a2.
               Option.bind (json_num kvs ''entry_price_usd'') (\<lambda>a3.
               Option.bind (json_num kvs ''entry_time'') (\<lambda>a4.
               Option.bind (json_num kvs ''position_size_usdc'') (\<lambda>a5.
               Option.bind (json_num kvs ''token_amount'') (\<lambda>a6.
               Option.bind (json_num kvs ''stop_loss_price'') (\<lambda>a7.
               Option.bind (json_num kvs ''take_profit_price'') (\<lambda>a8.
               Option.bind (json_num kvs ''current_price_usd'') (\<lambda>a9.
               Option.bind (json_num kvs ''realized_pnl_usd'') (\<lambda>a10.
                 Some \<lparr>mint = a1, symbol = a2, entry_price_usd = a3, entry_time = a4,
                       position_size_usdc = a5, token_amount = a6, stop_loss_price = a7,
                       take_profit_price = a8, current_price_usd = a9,
                       realized_pnl_usd = a10\<rparr>))))))))))
             of None \<Rightarrow> Inl TypeError | Some p \<Rightarrow> Inr p)
      | _ \<Rightarrow> Inl TypeError)"

subsection \<open>Configuration and collaborators\<close>

text \<open>The attributes of \<^verbatim>\<open>config\<close> that the trade manager reads (set from the environment).\<close>

record config =
  MAX_POSITION_SIZE_USDC :: real
  MAX_SIMULTANEOUS_POSITIONS :: int
  STOP_LOSS_PERCENT :: real
  TAKE_PROFIT_PERCENT :: real
  USDC_MINT :: string

text \<open>
  A Jupiter quote is a dict of which only \<^verbatim>\<open>outAmount\<close> is read
  (\<^verbatim>\<open>int(quote.get("outAmount", 0))\<close>). The environment gives the answers of the Jupiter
  client and of the clock; \<open>None\<close> from \<open>get_quote\<close> or \<open>get_swap_transaction\<close> stands for
  any falsy answer (\<^verbatim>\<open>None\<close>, an empty dict, empty bytes).
\<close>

record quote =
  outAmount :: "int option"

record env =
  get_quote :: "string \<Rightarrow> string \<Rightarrow> int \<Rightarrow> int \<Rightarrow> quote option"
  get_swap_transaction :: "quote \<Rightarrow> string \<Rightarrow> string option"
  get_token_prices :: "string list \<Rightarrow> (string \<times> real) list"
  time_time :: real
  now_isoformat :: string

subsection \<open>TradeManager state\<close>

record trade_record =
  tr_timestamp :: string
  tr_action :: string
  tr_mint :: string
  tr_symbol :: string
  tr_entry_price :: real
  tr_current_price :: real
  tr_position_size_usdc :: real
  tr_token_amount :: real
  tr_pnl_usd :: real
  tr_reason :: string

text \<open>
  The object's attributes, and beside them the two files it writes: \<open>state_file\<close> is the
  content of \<^verbatim>\<open>config.STATE_FILE\<close> (\<open>None\<close> when the file does not exist) and
  \<open>trades_log_file\<close> the lines of \<^verbatim>\<open>config.TRADES_LOG_FILE\<close>.
\<close>

record trade_manager =
  wallet_public_key :: string
  positions :: "(string \<times> Position) list"
  trade_history :: "trade_record list"
  state_file :: "json option"
  trades_log_file :: "trade_record list"

definition execute_buy :: "env \<Rightarrow> config \<Rightarrow> trade_manager \<Rightarrow> string \<Rightarrow> real \<Rightarrow> real option" where
  "execute_buy e cfg self mint' amount_usdc =
     (let amount = py_int (amount_usdc * 1000000) in
      case get_quote e (USDC_MINT cfg) mint' amount 50 of
        None \<Rightarrow> None
      | Some q \<Rightarrow>
          (case get_swap_transaction e q (wallet_public_key self) of
             None \<Rightarrow> None
           | Some tx_bytes \<Rightarrow>
               (let out_amount = dict_get (outAmount q) 0 in
                Some (real_of_int out_amount / 10 ^ 6))))"

definition execute_sell :: "env \<Rightarrow> config \<Rightarrow> trade_manager \<Rightarrow> string \<Rightarrow> real \<Rightarrow> real option" where
  "execute_sell e cfg self mint' token_amount' =
     (let amount = py_int (token_amount' * 10 ^ 6) in
      case get_quote e mint' (USDC_MINT cfg) amount 50 of
        None \<Rightarrow> None
      | Some q \<Rightarrow>
          (let out_amount = dict_get (outAmount q) 0;
               usdc_received = real_of_int out_amount / 1000000 in
           case get_swap_transaction e q (wallet_public_key self) of
             None \<Rightarrow> None
           | Some tx_bytes \<Rightarrow> Some usdc_received))"

definition log_trade ::
  "env \<Rightarrow> string \<Rightarrow> Position \<Rightarrow> string \<Rightarrow> trade_manager \<Rightarrow> trade_manager" where
  "log_trade e action pos reason self =
     (let trade_record =
        \<lparr>tr_timestamp = now_isoformat e, tr_action = action, tr_mint = mint pos,
         tr_symbol = symbol pos, tr_entry_price = entry_price_usd pos,
         tr_current_price = current_price_usd pos,
         tr_position_size_usdc = position_size_usdc pos,
         tr_token_amount = token_amount pos,
         tr_pnl_usd = (if action = ''CLOSE'' then realized_pnl_usd pos else 0),
         tr_reason = reason\<rparr>
      in self\<lparr>trade_history := trade_history self @ [trade_record],
               trades_log_file := trades_log_file self @ [trade_record]\<rparr>)"

definition snapshot :: "env \<Rightarrow> (string \<times> Position) list \<Rightarrow> json" where
  "snapshot e ps =
     JObj [(''positions'', JObj (map (\<lambda>kv. (fst kv, to_dict (snd kv))) ps)),
           (''last_updated'', JNum (time_time e))]"

definition save_state :: "env \<Rightarrow> trade_manager \<Rightarrow> trade_manager" where
  "save_state e self = self\<lparr>state_file := Some (snapshot e (positions self))\<rparr>"

text \<open>
  The loop of \<^verbatim>\<open>_load_state\<close>. An exception of \<^verbatim>\<open>from_dict\<close> is caught by the
  \<^verbatim>\<open>except\<close> around the loop: the positions read so far stay.
\<close>

fun load_loop :: "(string \<times> json) list \<Rightarrow> trade_manager \<Rightarrow> trade_manager" where
  "load_loop [] self = self"
| "load_loop ((mint', pos_data) # rest) self =
     (case from_dict pos_data of
        Inl e \<Rightarrow> self
      | Inr p \<Rightarrow> load_loop rest (self\<lparr>positions := dict_setitem (positions self) mint' p\<rparr>))"

definition load_state :: "trade_manager \<Rightarrow> trade_manager" where
  "load_state self =
     (case state_file self of
        None \<Rightarrow> self
      | Some (JObj state) \<Rightarrow>
          (case map_of state ''positions'' of
             None \<Rightarrow> self
           | Some (JObj positions_data) \<Rightarrow> load_loop positions_data self
           | Some _ \<Rightarrow> self)
      | Some _ \<Rightarrow> self)"

text \<open>
  \<^verbatim>\<open>TradeManager.__init__\<close> on a disk that holds the given two files: empty positions and
  history, then \<^verbatim>\<open>_load_state\<close>.
\<close>

definition TradeManager_init :: "string \<Rightarrow> json option \<Rightarrow> trade_record list \<Rightarrow> trade_manager" where
  "TradeManager_init wallet sf tlog =
     load_state \<lparr>wallet_public_key = wallet, positions = [], trade_history = [],
                 state_file = sf, trades_log_file = tlog\<rparr>"

subsection \<open>open\_position and close\_position\<close>

text \<open>
  \<^verbatim>\<open>open_position\<close>. The three early returns come first. After a positive fill the
  position is stored, logged and saved, and only then the last log line formats
  \<^verbatim>\<open>{position}\<close>: when that raises (a position size of 0), the exception leaves the method
  with the state already written.
\<close>

definition open_position ::
  "env \<Rightarrow> config \<Rightarrow> string \<Rightarrow> string \<Rightarrow> real \<Rightarrow> real \<Rightarrow> trade_manager
     \<Rightarrow> (py_error + Position option) \<times> trade_manager" where
  "open_position e cfg mint' symbol' price_usd amount_usdc self =
     (if mint' \<in> fst ` set (positions self) then (Inr None, self)
      else if int (length (positions self)) \<ge> MAX_SIMULTANEOUS_POSITIONS cfg
      then (Inr None, self)
      else
        (let position_size = min amount_usdc (MAX_POSITION_SIZE_USDC cfg);
             stop_loss_price' = price_usd * (1 + STOP_LOSS_PERCENT cfg / 100);
             take_profit_price' = price_usd * (1 + TAKE_PROFIT_PERCENT cfg / 100)
         in case execute_buy e cfg self mint' position_size of
              None \<Rightarrow> (Inr None, self)
            | Some token_amount' \<Rightarrow>
                if token_amount' \<le> 0 then (Inr None, self)
                else
                  (let pos = \<lparr>mint = mint', symbol = symbol', entry_price_usd = price_usd,
                              entry_time = time_time e, position_size_usdc = position_size,
                              token_amount = token_amount',
                              stop_loss_price = stop_loss_price',
                              take_profit_price = take_profit_price',
                              current_price_usd = price_usd, realized_pnl_usd = 0\<rparr>;
                       self1 = self\<lparr>positions := dict_setitem (positions self) mint' pos\<rparr>;
                       self2 = log_trade e ''OPEN'' pos '''' self1;
                       self3 = save_state e self2
                   in case Position_str pos of
                        Inl err \<Rightarrow> (Inl err, self3)
                      | Inr u \<Rightarrow> (Inr (Some pos), self3))))"

text \<open>
  \<^verbatim>\<open>close_position\<close>. Its first log line formats \<^verbatim>\<open>position.unrealized_pnl_percent\<close>
  before the sell, so a position of size 0 raises there and nothing is sold or changed.
  Beside the amount received the model returns the Position object as the method leaves
  it (\<^verbatim>\<open>realized_pnl_usd\<close> assigned), because \<^verbatim>\<open>check_positions\<close> reads that object after
  the call. The assignment to the object held by the dict is written out before the entry
  is deleted.
\<close>

definition close_position_obj ::
  "env \<Rightarrow> config \<Rightarrow> string \<Rightarrow> string \<Rightarrow> trade_manager
     \<Rightarrow> (py_error + (real \<times> Position) option) \<times> trade_manager" where
  "close_position_obj e cfg mint' reason self =
     (case map_of (positions self) mint' of
        None \<Rightarrow> (Inr None, self)
      | Some pos \<Rightarrow>
          (case unrealized_pnl_percent pos of
             Inl err \<Rightarrow> (Inl err, self)
           | Inr pct \<Rightarrow>
               (case execute_sell e cfg self mint' (token_amount pos) of
                  None \<Rightarrow> (Inr None, self)
                | Some usdc_received \<Rightarrow>
                    (let realized_pnl = usdc_received - position_size_usdc pos;
                         pos' = pos\<lparr>realized_pnl_usd := realized_pnl\<rparr>;
                         self1 = self\<lparr>positions :=
                                   dict_setitem (positions self) mint' pos'\<rparr>;
                         self2 = log_trade e ''CLOSE'' pos' reason self1;
                         self3 = self2\<lparr>positions := dict_delitem (positions self2) mint'\<rparr>;
                         self4 = save_state e self3
                     in (Inr (Some (usdc_received, pos')), self4)))))"

definition close_position ::
  "env \<Rightarrow> config \<Rightarrow> string \<Rightarrow> string \<Rightarrow> trade_manager
     \<Rightarrow> (py_error + real option) \<times> trade_manager" where
  "close_position e cfg mint' reason self =
     (case close_position_obj e cfg mint' reason self of
        (Inl err, self') \<Rightarrow> (Inl err, self')
      | (Inr r, self') \<Rightarrow> (Inr (map_option fst r), self'))"

subsection \<open>check\_positions\<close>

record action =
  act_action :: string
  act_mint :: string
  act_symbol :: string
  act_pnl_usd :: real

text \<open>
  The body of the \<^verbatim>\<open>for\<close> loop for one item \<^verbatim>\<open>(mint, position)\<close>; \<^verbatim>\<open>continue\<close> is the
  first branch. The assignment to \<^verbatim>\<open>position.current_price_usd\<close> changes the object held
  by the dict. An exception of \<^verbatim>\<open>close_position\<close> is not caught.
\<close>

definition check_one ::
  "env \<Rightarrow> config \<Rightarrow> (string \<times> real) list \<Rightarrow> string \<Rightarrow> Position \<Rightarrow> action list
     \<Rightarrow> trade_manager \<Rightarrow> (py_error + action list) \<times> trade_manager" where
  "check_one e cfg prices mint' pos actions self =
     (case map_of prices mint' of
        None \<Rightarrow> (Inr actions, self)
      | Some pr \<Rightarrow>
          (let pos1 = pos\<lparr>current_price_usd := pr\<rparr>;
               self1 = self\<lparr>positions := dict_setitem (positions self) mint' pos1\<rparr>
           in if should_stop_loss pos1 then
                (case close_position_obj e cfg mint' ''stop_loss'' self1 of
                   (Inl err, self2) \<Rightarrow> (Inl err, self2)
                 | (Inr None, self2) \<Rightarrow> (Inr actions, self2)
                 | (Inr (Some (usdc, pos2)), self2) \<Rightarrow>
                     (Inr (actions @ [\<lparr>act_action = ''stop_loss'', act_mint = mint',
                                       act_symbol = symbol pos2,
                                       act_pnl_usd = realized_pnl_usd pos2\<rparr>]), self2))
              else if should_take_profit pos1 then
                (case close_position_obj e cfg mint' ''take_profit'' self1 of
                   (Inl err, self2) \<Rightarrow> (Inl err, self2)
                 | (Inr None, self2) \<Rightarrow> (Inr actions, self2)
                 | (Inr (Some (usdc, pos2)), self2) \<Rightarrow>
                     (Inr (actions @ [\<lparr>act_action = ''take_profit'', act_mint = mint',
                                       act_symbol = symbol pos2,
                                       act_pnl_usd = realized_pnl_usd pos2\<rparr>]), self2))
              else (Inr actions, self1)))"

text \<open>
  \<^verbatim>\<open>for mint, position in self.positions.items()\<close> iterates over the live dict. Every
  step of a dict iterator, the last one that would end the loop included, first compares
  the dict's size with the size it had when the iterator was made (\<open>used\<close>) and raises
  \<^verbatim>\<open>RuntimeError: dictionary changed size during iteration\<close> when they differ. While the
  size is unchanged the keys are the ones the loop started with (the body only deletes),
  so the remaining keys are carried along and each position is read from the dict when
  its turn comes. The state is returned beside the result or the exception, with all the
  effects that happened before the exception.
\<close>

fun check_loop ::
  "env \<Rightarrow> config \<Rightarrow> nat \<Rightarrow> (string \<times> real) list \<Rightarrow> string list \<Rightarrow> action list
     \<Rightarrow> trade_manager \<Rightarrow> (py_error + action list) \<times> trade_manager" where
  "check_loop e cfg used prices [] actions self =
     (if length (positions self) \<noteq> used then (Inl RuntimeError, self)
      else (Inr actions, self))"
| "check_loop e cfg used prices (mint' # rest) actions self =
     (if length (positions self) \<noteq> used then (Inl RuntimeError, self)
      else
        case map_of (positions self) mint' of
          None \<Rightarrow> (Inl RuntimeError, self)
        | Some pos \<Rightarrow>
            (case check_one e cfg prices mint' pos actions self of
               (Inl err, self') \<Rightarrow> (Inl err, self')
             | (Inr actions', self') \<Rightarrow> check_loop e cfg used prices rest actions' self'))"

definition check_positions ::
  "env \<Rightarrow> config \<Rightarrow> trade_manager \<Rightarrow> (py_error + action list) \<times> trade_manager" where
  "check_positions e cfg self =
     (if positions self = [] then (Inr [], self)
      else
        (let mints = map fst (positions self);
             prices = get_token_prices e mints
         in check_loop e cfg (length (positions self)) prices mints [] self))"

text \<open>What a successful \<^verbatim>\<open>close_position\<close> leaves behind.\<close>

definition closed_state :: "env \<Rightarrow> string \<Rightarrow> Position \<Rightarrow> string \<Rightarrow> trade_manager \<Rightarrow> trade_manager" where
  "closed_state e m pos reason self =
     \<lparr>wallet_public_key = wallet_public_key self,
      positions = dict_delitem (positions self) m,
      trade_history = trade_history self @
        [\<lparr>tr_timestamp = now_isoformat e, tr_action = ''CLOSE'', tr_mint = mint pos,
          tr_symbol = symbol pos, tr_entry_price = entry_price_usd pos,
          tr_current_price = current_price_usd pos,
          tr_position_size_usdc = position_size_usdc pos,
          tr_token_amount = token_amount pos,
          tr_pnl_usd = realized_pnl_usd pos, tr_reason = reason\<rparr>],
      state_file = Some (snapshot e (dict_delitem (positions self) m)),
      trades_log_file = trades_log_file self @
        [\<lparr>tr_timestamp = now_isoformat e, tr_action = ''CLOSE'', tr_mint = mint pos,
          tr_symbol = symbol pos, tr_entry_price = entry_price_usd pos,
          tr_current_price = current_price_usd pos,
          tr_position_size_usdc = position_size_usdc pos,
          tr_token_amount = token_amount pos,
          tr_pnl_usd = realized_pnl_usd pos, tr_reason = reason\<rparr>]\<rparr>"

section \<open>strategy\_evolver.py\<close>

text \<open>The result dicts passed to \<^verbatim>\<open>select_best\<close>; \<^verbatim>\<open>trades\<close> and \<^verbatim>\<open>sharpe\<close> are read with \<^verbatim>\<open>get\<close>.\<close>

record evo_result =
  res_params :: strategy
  res_win_rate :: real
  res_trades :: "int option"
  res_sharpe :: "real option"

text \<open>The ids \<^verbatim>\<open>f"v{generation}_{i}"\<close> and \<^verbatim>\<open>f"best_{generation}"\<close>.\<close>

datatype variant_id = VariantId nat nat | BestId nat

record StrategyVariant =
  sv_id :: variant_id
  sv_params :: strategy
  sv_win_rate :: real
  sv_trades :: int
  sv_sharpe :: real
  sv_pnl :: real
  sv_created :: string
  sv_last_tested :: string

text \<open>
  The evolver's attributes; \<open>tree_file\<close> is what \<^verbatim>\<open>_log_evolution\<close> has appended to
  \<^verbatim>\<open>data/strategy_tree.md\<close>: the generation and the result of each entry.
\<close>

record evolver =
  base_strategy :: strategy
  variants :: "StrategyVariant list"
  generation :: nat
  best_win_rate :: real
  tree_file :: "(nat \<times> evo_result) list"

text \<open>
  \<^verbatim>\<open>max(results, key=...)\<close>: the first item with the greatest key (a later item replaces
  the current one only when its key is strictly greater); ValueError on an empty list.
\<close>

fun max_from :: "('a \<Rightarrow> real) \<Rightarrow> 'a \<Rightarrow> 'a list \<Rightarrow> 'a" where
  "max_from key best [] = best"
| "max_from key best (x # xs) =
     (if key x > key best then max_from key x xs else max_from key best xs)"

definition py_max :: "('a \<Rightarrow> real) \<Rightarrow> 'a list \<Rightarrow> py_error + 'a" where
  "py_max key xs = (case xs of [] \<Rightarrow> Inl ValueError | x # rest \<Rightarrow> Inr (max_from key x rest))"

definition log_evolution :: "evo_result \<Rightarrow> evolver \<Rightarrow> evolver" where
  "log_evolution result self = self\<lparr>tree_file := tree_file self @ [(generation self, result)]\<rparr>"

definition select_best ::
  "evolver \<Rightarrow> evo_result list \<Rightarrow> (py_error + StrategyVariant) \<times> evolver" where
  "select_best self results =
     (case py_max res_win_rate results of
        Inl e \<Rightarrow> (Inl e, self)
      | Inr best \<Rightarrow>
          (let self' =
             (if res_win_rate best > best_win_rate self
              then log_evolution best
                     (self\<lparr>best_win_rate := res_win_rate best,
                           base_strategy := res_params best\<rparr>)
              else self)
           in (Inr \<lparr>sv_id = BestId (generation self'), sv_params = res_params best,
                    sv_win_rate = res_win_rate best,
                    sv_trades = dict_get (res_trades best) 0,
                    sv_sharpe = 0, sv_pnl = 0, sv_created = '''', sv_last_tested = ''''\<rparr>,
               self')))"

text \<open>A sequence of \<^verbatim>\<open>select_best\<close> calls on the same evolver, one per results list.\<close>

fun select_best_calls :: "evolver \<Rightarrow> evo_result list list \<Rightarrow> evolver" where
  "select_best_calls self [] = self"
| "select_best_calls self (results # later) =
     select_best_calls (snd (select_best self results)) later"

subsection \<open>An evolver and a results list used to instantiate the theorems\<close>

definition ex_evolver :: evolver where
  "ex_evolver =
     \<lparr>base_strategy = \<lparr>rsi_period = Some 14, rsi_low = Some 57, rsi_high = Some 63,
                        vol_mult = Some 1.38, vol_lookback = Some 20,
                        stop_atr_mult = Some 1.85, tp_percent = Some 0.28\<rparr>,
      variants = [], generation = 1, best_win_rate = 0.65, tree_file = []\<rparr>"

definition ex_results :: "evo_result list" where
  "ex_results =
     [\<lparr>res_params = ex_strategy, res_win_rate = 0.6, res_trades = Some 100,
       res_sharpe = None\<rparr>,
      \<lparr>res_params = ex_strategy\<lparr>rsi_period := Some 12\<rparr>, res_win_rate = 0.7,
       res_trades = Some 120, res_sharpe = None\<rparr>,
      \<lparr>res_params = ex_strategy\<lparr>rsi_period := Some 16\<rparr>, res_win_rate = 0.7,
       res_trades = None, res_sharpe = None\<rparr>]"

definition ex_results_low :: "evo_result list" where
  "ex_results_low =
     [\<lparr>res_params = ex_strategy, res_win_rate = 0.6, res_trades = Some 100,
       res_sharpe = None\<rparr>]"

subsection \<open>A trade manager with two open positions, used to instantiate the theorems\<close>

definition ex_config :: config where
  "ex_config = \<lparr>MAX_POSITION_SIZE_USDC = 50, MAX_SIMULTANEOUS_POSITIONS = 3,
                 STOP_LOSS_PERCENT = - 15, TAKE_PROFIT_PERCENT = 30, USDC_MINT = ''USDC''\<rparr>"

text \<open>
  Every swap is quoted at 40000000 units out and can be executed; the price feed puts
  \<open>AAA\<close> below its stop and \<open>BBB\<close> above its take-profit.
\<close>

definition ex_env :: env where
  "ex_env = \<lparr>get_quote = (\<lambda>input_mint output_mint amount slippage_bps.
                            Some \<lparr>outAmount = Some 40000000\<rparr>),
              get_swap_transaction = (\<lambda>q user_public_key. Some ''tx''),
              get_token_prices = (\<lambda>mints. [(''AAA'', 0.5), (''BBB'', 2)]),
              time_time = 1700000000,
              now_isoformat = ''2026-01-01T00:00:00''\<rparr>"

definition ex_pos_a :: Position where
  "ex_pos_a = \<lparr>mint = ''AAA'', symbol = ''A'', entry_price_usd = 1, entry_time = 1600000000,
                position_size_usdc = 50, token_amount = 50, stop_loss_price = 0.85,
                take_profit_price = 1.3, current_price_usd = 1, realized_pnl_usd = 0\<rparr>"

definition ex_pos_b :: Position where
  "ex_pos_b = \<lparr>mint = ''BBB'', symbol = ''B'', entry_price_usd = 1, entry_time = 1600000001,
                position_size_usdc = 50, token_amount = 50, stop_loss_price = 0.85,
                take_profit_price = 1.3, current_price_usd = 1, realized_pnl_usd = 0\<rparr>"

definition ex_manager :: trade_manager where
  "ex_manager = \<lparr>wallet_public_key = ''wallet'',
                  positions = [(''AAA'', ex_pos_a), (''BBB'', ex_pos_b)],
                  trade_history = [], state_file = None, trades_log_file = []\<rparr>"






section \<open>Properties of the oscillator\<close>

lemma slice_from_subset: "set (slice_from xs i) \<subseteq> set xs"
  by (auto simp: slice_from_def dest: in_set_dropD)

lemma sum_list_slice_nonneg:
  "\<forall>x \<in> set xs. (0::real) \<le> x \<Longrightarrow> 0 \<le> sum_list (slice_from xs i)"
  using slice_from_subset [of xs i] by (intro sum_list_nonneg) auto

lemma sum_list_slice_zeros:
  "sum_list (slice_from (replicate n (0::real)) i) = 0"
  by (simp add: slice_from_def sum_list_replicate)

lemma rsi_loop_nonneg:
  "\<forall>x \<in> set gains. 0 \<le> x \<Longrightarrow> \<forall>x \<in> set losses. 0 \<le> x \<Longrightarrow>
   (\<forall>x \<in> set (fst (rsi_loop cs gains losses)). 0 \<le> x) \<and>
   (\<forall>x \<in> set (snd (rsi_loop cs gains losses)). 0 \<le> x)"
proof (induction cs gains losses rule: rsi_loop.induct)
  case (1 c0 c1 cs gains losses)
  show ?case
  proof (cases "close c1 - close c0 > 0")
    case True
    have "(\<forall>x \<in> set (fst (rsi_loop (c1 # cs) (gains @ [close c1 - close c0]) (losses @ [0]))). 0 \<le> x) \<and>
          (\<forall>x \<in> set (snd (rsi_loop (c1 # cs) (gains @ [close c1 - close c0]) (losses @ [0]))). 0 \<le> x)"
      using "1.prems" True by (intro "1.IH"(1) [OF refl True]) auto
    with True show ?thesis by (simp add: Let_def)
  next
    case False
    have "(\<forall>x \<in> set (fst (rsi_loop (c1 # cs) (gains @ [0]) (losses @ [\<bar>close c1 - close c0\<bar>]))). 0 \<le> x) \<and>
          (\<forall>x \<in> set (snd (rsi_loop (c1 # cs) (gains @ [0]) (losses @ [\<bar>close c1 - close c0\<bar>]))). 0 \<le> x)"
      using "1.prems" by (intro "1.IH"(2) [OF refl False]) auto
    with False show ?thesis by (simp add: Let_def)
  qed
qed simp_all

lemma rsi_loop_sorted_losses:
  "sorted (map close cs) \<Longrightarrow>
   snd (rsi_loop cs gains losses) = losses @ replicate (length cs - 1) 0"
proof (induction cs gains losses rule: rsi_loop.induct)
  case (1 c0 c1 cs gains losses)
  from "1.prems" have le: "close c0 \<le> close c1" and srt: "sorted (map close (c1 # cs))"
    by simp_all
  show ?case
  proof (cases "close c1 - close c0 > 0")
    case True
    have "snd (rsi_loop (c1 # cs) (gains @ [close c1 - close c0]) (losses @ [0]))
          = (losses @ [0]) @ replicate (length (c1 # cs) - 1) 0"
      by (rule "1.IH"(1) [OF refl True srt])
    with True show ?thesis
      by (simp add: Let_def replicate_app_Cons_same)
  next
    case False
    with le have eq: "\<bar>close c1 - close c0\<bar> = 0" by simp
    have "snd (rsi_loop (c1 # cs) (gains @ [0]) (losses @ [\<bar>close c1 - close c0\<bar>]))
          = (losses @ [\<bar>close c1 - close c0\<bar>]) @ replicate (length (c1 # cs) - 1) 0"
      by (rule "1.IH"(2) [OF refl False srt])
    with False eq show ?thesis
      by (simp add: Let_def replicate_app_Cons_same)
  qed
qed simp_all

lemma calculate_rsi_total:
  assumes "period \<noteq> 0"
  shows "\<exists>r. calculate_rsi candles period = Inr r"
proof -
  let ?G = "sum_list (slice_from (fst (rsi_loop candles [] [])) (- period))"
  let ?L = "sum_list (slice_from (snd (rsi_loop candles [] [])) (- period))"
  have nn: "(\<forall>x \<in> set (fst (rsi_loop candles [] [])). 0 \<le> x) \<and>
            (\<forall>x \<in> set (snd (rsi_loop candles [] [])). 0 \<le> x)"
    by (rule rsi_loop_nonneg) simp_all
  have G: "0 \<le> ?G" using nn by (intro sum_list_slice_nonneg) blast
  have L: "0 \<le> ?L" using nn by (intro sum_list_slice_nonneg) blast
  have ratio: "0 \<le> (?G / real_of_int period) / (?L / real_of_int period)"
    using G L assms by (simp add: divide_nonneg_nonneg)
  then have "1 + (?G / real_of_int period) / (?L / real_of_int period) \<noteq> 0"
    by linarith
  with assms show ?thesis
    by (simp add: calculate_rsi_def rsi_avg_gain_def rsi_avg_loss_def py_truediv_def)
qed

text \<open>
  C7. A candle sequence shorter than \<open>period + 1\<close> gives the neutral value 50, for every
  period (negative and zero included).
\<close>

theorem rsi_short_history_neutral:
  "int (length candles) < period + 1 \<Longrightarrow> calculate_rsi candles period = Inr 50"
  by (simp add: calculate_rsi_def)

theorem rsi_short_history_neutral_witness:
  "int (length ex_candles) < 14 + 1 \<and> calculate_rsi ex_candles 14 = Inr 50"
proof -
  have h: "int (length ex_candles) < 14 + 1" by (simp add: ex_candles_def)
  from rsi_short_history_neutral [OF h] h show ?thesis by (rule conjI [rotated])
qed

lemma ex_rsi_period_0: "calculate_rsi ex_candles 0 = Inl ZeroDivisionError"
  by (simp add: calculate_rsi_def rsi_avg_gain_def py_truediv_def ex_candles_def)

text \<open>
  C8, as the code has it. The guard \<^verbatim>\<open>len(candles) < period + 1\<close> lets a period of 0
  through for every non-empty sequence, and line 119 then divides the window sum by the
  period: the call raises ZeroDivisionError, whatever the closes are, so a non-decreasing
  sequence of length at least \<open>period + 1\<close> does not always give 100. For a period other
  than 0 the statement holds: when the history is long enough and the average loss of the
  trailing window evaluates to 0 the oscillator is 100, and this covers every
  non-decreasing close sequence. The division \<^verbatim>\<open>avg_gain / avg_loss\<close> is guarded by the
  test \<^verbatim>\<open>avg_loss == 0\<close>: for a period other than 0 the function returns a number, and
  whenever it raises, the period is 0 and the exception is the one of the line that
  computes \<^verbatim>\<open>avg_gain\<close>, never one of \<^verbatim>\<open>avg_gain / avg_loss\<close> or \<^verbatim>\<open>100 / (1 + rs)\<close>.
  Floats are real numbers here, so this says nothing about a window sum that overflows
  to \<^verbatim>\<open>inf\<close> in floating point.
\<close>

theorem rsi_zero_loss_is_100:
  "(int (length candles) \<ge> period + 1 \<and> rsi_avg_loss candles period = Inr 0
      \<longrightarrow> calculate_rsi candles period = Inr 100) \<and>
   (int (length candles) \<ge> period + 1 \<and> period \<noteq> 0 \<and> sorted (map close candles)
      \<longrightarrow> rsi_avg_loss candles period = Inr 0 \<and> calculate_rsi candles period = Inr 100) \<and>
   (period \<noteq> 0 \<longrightarrow> (\<exists>r. calculate_rsi candles period = Inr r)) \<and>
   (calculate_rsi candles period = Inl err
      \<longrightarrow> period = 0 \<and> rsi_avg_gain candles period = Inl err) \<and>
   (period = 0 \<and> candles \<noteq> []
      \<longrightarrow> rsi_avg_loss candles period = Inl ZeroDivisionError \<and>
          calculate_rsi candles period = Inl ZeroDivisionError)"
proof -
  have one: "calculate_rsi candles period = Inr 100"
    if h: "int (length candles) \<ge> period + 1 \<and> rsi_avg_loss candles period = Inr 0"
  proof -
    from h have p: "period \<noteq> 0"
      by (auto simp: rsi_avg_loss_def py_truediv_def split: if_splits)
    with h show ?thesis
      by (simp add: calculate_rsi_def rsi_avg_gain_def py_truediv_def)
  qed
  have two: "rsi_avg_loss candles period = Inr 0 \<and> calculate_rsi candles period = Inr 100"
    if h: "int (length candles) \<ge> period + 1 \<and> period \<noteq> 0 \<and> sorted (map close candles)"
  proof -
    from h have "snd (rsi_loop candles [] []) = replicate (length candles - 1) 0"
      using rsi_loop_sorted_losses [of candles "[]" "[]"] by simp
    with h have al: "rsi_avg_loss candles period = Inr 0"
      by (simp add: rsi_avg_loss_def py_truediv_def sum_list_slice_zeros)
    with h have "calculate_rsi candles period = Inr 100"
      by (simp add: calculate_rsi_def rsi_avg_gain_def py_truediv_def)
    with al show ?thesis by (rule conjI)
  qed
  have three: "\<exists>r. calculate_rsi candles period = Inr r" if "period \<noteq> 0"
    using that by (rule calculate_rsi_total)
  have four: "period = 0 \<and> rsi_avg_gain candles period = Inl err"
    if e: "calculate_rsi candles period = Inl err"
  proof -
    have p: "period = 0"
    proof (rule ccontr)
      assume "period \<noteq> 0"
      from calculate_rsi_total [OF this, of candles] e show False by simp
    qed
    from e p have "err = ZeroDivisionError"
      by (simp add: calculate_rsi_def rsi_avg_gain_def py_truediv_def split: if_splits)
    with p show ?thesis by (simp add: rsi_avg_gain_def py_truediv_def)
  qed
  have five: "rsi_avg_loss candles period = Inl ZeroDivisionError \<and>
          calculate_rsi candles period = Inl ZeroDivisionError"
    if h: "period = 0 \<and> candles \<noteq> []"
  proof -
    from h have p: "period = 0" and ne: "candles \<noteq> []" by blast+
    from ne have "0 < length candles" by simp
    with p show ?thesis
      by (simp add: calculate_rsi_def rsi_avg_gain_def rsi_avg_loss_def py_truediv_def)
  qed
  show ?thesis
    apply (rule conjI)
     apply (rule impI)
     apply (erule one)
    apply (rule conjI)
     apply (rule impI)
     apply (erule two)
    apply (rule conjI)
     apply (rule impI)
     apply (erule three)
    apply (rule conjI)
     apply (rule impI)
     apply (erule four)
    apply (rule impI)
    apply (erule five)
    done
qed

theorem rsi_zero_loss_is_100_witness:
  "int (length ex_candles) \<ge> 2 + 1 \<and> (2::int) \<noteq> 0 \<and> sorted (map close ex_candles) \<and>
   rsi_avg_loss ex_candles 2 = Inr 0 \<and> calculate_rsi ex_candles 2 = Inr 100 \<and>
   calculate_rsi ex_candles 0 = Inl ZeroDivisionError \<and>
   rsi_avg_gain ex_candles 0 = Inl ZeroDivisionError \<and>
   (0::int) = 0 \<and> ex_candles \<noteq> [] \<and>
   rsi_avg_loss ex_candles 0 = Inl ZeroDivisionError"
proof -
  have a: "int (length ex_candles) \<ge> 2 + 1" by (simp add: ex_candles_def)
  have b: "(2::int) \<noteq> 0" by simp
  have c: "sorted (map close ex_candles)" by (simp add: ex_candles_def)
  have l: "rsi_avg_loss ex_candles 2 = Inr 0 \<and> calculate_rsi ex_candles 2 = Inr 100"
    using rsi_zero_loss_is_100 [where period = 2 and candles = ex_candles] a b c by simp
  have ne: "ex_candles \<noteq> []" by (simp add: ex_candles_def)
  have z: "rsi_avg_loss ex_candles 0 = Inl ZeroDivisionError \<and>
           calculate_rsi ex_candles 0 = Inl ZeroDivisionError"
    using rsi_zero_loss_is_100 [where period = 0 and candles = ex_candles] ne by simp
  have g: "rsi_avg_gain ex_candles 0 = Inl ZeroDivisionError"
    using rsi_zero_loss_is_100 [where period = 0 and candles = ex_candles and err = ZeroDivisionError] z by simp
  from a b c l z g ne show ?thesis by simp
qed

text \<open>
  The claim of C8 at period 0: the three candles of the example have non-decreasing
  closes and their number is at least \<open>period + 1\<close>, yet the call raises
  ZeroDivisionError instead of returning 100.
\<close>

theorem rsi_period_zero_counterexample:
  "int (length ex_candles) \<ge> 0 + 1 \<and> sorted (map close ex_candles) \<and>
   calculate_rsi ex_candles 0 = Inl ZeroDivisionError \<and>
   calculate_rsi ex_candles 0 \<noteq> Inr 100"
proof -
  have a: "int (length ex_candles) \<ge> 0 + 1" by (simp add: ex_candles_def)
  have c: "sorted (map close ex_candles)" by (simp add: ex_candles_def)
  from a c ex_rsi_period_0 show ?thesis by simp
qed

section \<open>Properties of the backtest engine\<close>

lemma run_loop_append:
  "run_loop self strat h (xs @ ys) st =
     (case run_loop self strat h xs st of
        Inl e \<Rightarrow> Inl e
      | Inr st' \<Rightarrow> run_loop self strat (h @ xs) ys st')"
  by (induction xs arbitrary: h st) (simp_all split: sum.splits)

lemma run_loop_snoc:
  assumes "k < length candles"
  shows "run_loop self strat [] (take (Suc k) candles) st =
     (case run_loop self strat [] (take k candles) st of
        Inl e \<Rightarrow> Inl e
      | Inr st' \<Rightarrow> run_step self strat (take k candles) (candles ! k) st')"
proof -
  have "take (Suc k) candles = take k candles @ [candles ! k]"
    using assms by (simp add: take_Suc_conv_app_nth)
  then show ?thesis
    by (simp add: run_loop_append split: sum.splits)
qed

lemma run_step_long:
  assumes "position st = Some p" and "run_step self strat history candle st = Inr st'"
  shows "(position st' = Some p \<and> trades st' = trades st) \<or>
         (position st' = None \<and> length (trades st') = Suc (length (trades st)))"
  using assms
  by (auto simp: run_step_def Let_def split: sum.splits if_splits)

lemma run_step_flat:
  assumes "position st = None" and "run_step self strat history candle st = Inr st'"
  shows "trades st' = trades st"
  using assms
  by (auto simp: run_step_def Let_def split: sum.splits if_splits)

lemma ex_run_2:
  "run_loop ex_engine ex_strategy [] (take 2 ex_candles) (run_init ex_engine) = Inr ex_long"
  by (simp add: ex_candles_def ex_strategy_def ex_engine_def run_init_def ex_long_def
      ex_position_def run_step_def check_signal_def calculate_rsi_def dict_get_def
      py_truediv_def FEES_swap_def FEES_slippage_def FEES_network_def)

lemma ex_rsi_3: "calculate_rsi ex_candles 2 = Inr 100"
  by (simp add: ex_candles_def calculate_rsi_def rsi_avg_gain_def rsi_avg_loss_def
      slice_from_def py_truediv_def)

lemma ex_signal_2:
  "check_signal (ex_candles ! 2) ex_strategy (take 2 ex_candles) = Inr BUY"
proof -
  have "take 2 ex_candles @ [ex_candles ! 2] = ex_candles"
    by (simp add: ex_candles_def)
  then show ?thesis
    by (simp add: check_signal_def ex_rsi_3 ex_strategy_def dict_get_def)
       (simp add: ex_candles_def)
qed

lemma ex_step_3:
  "run_step ex_engine ex_strategy (take 2 ex_candles) (ex_candles ! 2) ex_long = Inr ex_closed"
proof -
  have c: "ex_candles ! 2 = \<lparr>close = 200, high = 300, low = 100, volume = 10, time = 2\<rparr>"
    by (simp add: ex_candles_def)
  show ?thesis
    unfolding run_step_def ex_signal_2
    by (simp add: c ex_long_def ex_closed_def ex_position_def)
qed

lemma ex_run_3:
  "run_loop ex_engine ex_strategy [] (take (Suc 2) ex_candles) (run_init ex_engine)
     = Inr ex_closed"
proof -
  have "(2::nat) < length ex_candles" by (simp add: ex_candles_def)
  from run_loop_snoc [OF this, of ex_engine ex_strategy "run_init ex_engine"]
  show ?thesis by (simp only: ex_run_2 ex_step_3 sum.case)
qed

text \<open>
  C5. \<^verbatim>\<open>run\<close> keeps its open position in the single local \<open>position\<close>, which is
  \<open>None\<close> (Flat) or one dict (Long). Between the state after \<open>k\<close> candles and the state
  after \<open>k + 1\<close> candles of any run, an open position either stays the very same position
  with no trade recorded, or is closed with exactly one trade appended; it is never
  replaced by a new entry, whatever the signal of that candle is (BUY included). While
  Flat no trade is recorded, so the states alternate Flat, Long, Flat.
\<close>

theorem backtest_single_position:
  assumes "k < length candles"
    and "run_loop self strat [] (take k candles) (run_init self) = Inr st"
    and "run_loop self strat [] (take (Suc k) candles) (run_init self) = Inr st'"
  shows "(\<forall>p. position st = Some p \<longrightarrow>
            (position st' = Some p \<and> trades st' = trades st) \<or>
            (position st' = None \<and> length (trades st') = Suc (length (trades st)))) \<and>
         (\<forall>p. position st = Some p \<and>
               check_signal (candles ! k) strat (take k candles) = Inr BUY \<longrightarrow>
            position st' = Some p \<or> position st' = None) \<and>
         (position st = None \<longrightarrow> trades st' = trades st)"
proof -
  have "run_step self strat (take k candles) (candles ! k) st
          = run_loop self strat [] (take (Suc k) candles) (run_init self)"
    by (simp only: run_loop_snoc [OF assms(1)] assms(2) sum.case)
  also have "\<dots> = Inr st'" by (rule assms(3))
  finally have step: "run_step self strat (take k candles) (candles ! k) st = Inr st'" .
  have long: "(position st' = Some p \<and> trades st' = trades st) \<or>
         (position st' = None \<and> length (trades st') = Suc (length (trades st)))"
    if "position st = Some p" for p
    using that step by (rule run_step_long)
  have flat: "trades st' = trades st" if "position st = None"
    using that step by (rule run_step_flat)
  show ?thesis
  proof (intro conjI allI impI)
    fix p assume "position st = Some p"
    then show "(position st' = Some p \<and> trades st' = trades st) \<or>
         (position st' = None \<and> length (trades st') = Suc (length (trades st)))"
      by (rule long)
  next
    fix p
    assume "position st = Some p \<and>
               check_signal (candles ! k) strat (take k candles) = Inr BUY"
    then have "position st = Some p" ..
    from long [OF this] show "position st' = Some p \<or> position st' = None"
      by (elim disjE conjE) (rule disjI1, assumption, rule disjI2, assumption)
  next
    assume "position st = None"
    then show "trades st' = trades st" by (rule flat)
  qed
qed

lemma ex_run_1:
  "run_loop ex_engine ex_strategy [] (take 1 ex_candles) (run_init ex_engine)
     = Inr (run_init ex_engine)"
  by (simp add: ex_candles_def run_step_def check_signal_def run_init_def)

lemma ex_run_2':
  "run_loop ex_engine ex_strategy [] (take (Suc 1) ex_candles) (run_init ex_engine)
     = Inr ex_long"
  using ex_run_2 by (simp only: Suc_1)

theorem backtest_single_position_witness:
  "(2::nat) < length ex_candles \<and>
   run_loop ex_engine ex_strategy [] (take 2 ex_candles) (run_init ex_engine) = Inr ex_long \<and>
   run_loop ex_engine ex_strategy [] (take (Suc 2) ex_candles) (run_init ex_engine)
     = Inr ex_closed \<and>
   position ex_long = Some ex_position \<and>
   check_signal (ex_candles ! 2) ex_strategy (take 2 ex_candles) = Inr BUY \<and>
   position ex_closed = None \<and>
   length (trades ex_closed) = Suc (length (trades ex_long)) \<and>
   (1::nat) < length ex_candles \<and>
   run_loop ex_engine ex_strategy [] (take 1 ex_candles) (run_init ex_engine)
     = Inr (run_init ex_engine) \<and>
   run_loop ex_engine ex_strategy [] (take (Suc 1) ex_candles) (run_init ex_engine)
     = Inr ex_long \<and>
   position (run_init ex_engine) = None \<and>
   trades ex_long = trades (run_init ex_engine)"
proof -
  have a: "(2::nat) < length ex_candles" by (simp add: ex_candles_def)
  have b: "run_loop ex_engine ex_strategy [] (take 2 ex_candles) (run_init ex_engine)
             = Inr ex_long"
    by (rule ex_run_2)
  have c: "run_loop ex_engine ex_strategy [] (take (Suc 2) ex_candles) (run_init ex_engine)
             = Inr ex_closed"
    by (rule ex_run_3)
  have d: "position ex_long = Some ex_position" by (simp add: ex_long_def)
  have e: "check_signal (ex_candles ! 2) ex_strategy (take 2 ex_candles) = Inr BUY"
    by (rule ex_signal_2)
  have long: "position ex_closed = None \<and>
              length (trades ex_closed) = Suc (length (trades ex_long))"
    using backtest_single_position [OF a b c] d
    by (simp add: ex_closed_def)
  have a1: "(1::nat) < length ex_candles" by (simp add: ex_candles_def)
  have f: "position (run_init ex_engine) = None" by (simp add: run_init_def)
  have flat: "trades ex_long = trades (run_init ex_engine)"
    using backtest_single_position [OF a1 ex_run_1 ex_run_2'] f by simp
  show ?thesis
    apply (intro conjI)
               apply (rule a)
              apply (rule b)
             apply (rule c)
            apply (rule d)
           apply (rule e)
          apply (rule conjunct1 [OF long])
         apply (rule conjunct2 [OF long])
        apply (rule a1)
       apply (rule ex_run_1)
      apply (rule ex_run_2')
     apply (rule f)
    apply (rule flat)
    done
qed

lemma check_signal_ignores_exit_params:
  "check_signal candle (strat\<lparr>stop_atr_mult := a, tp_percent := b\<rparr>) history
     = check_signal candle strat history"
  by (simp add: check_signal_def cong: sum.case_cong)

lemma run_step_ignores_exit_params:
  "run_step self (strat\<lparr>stop_atr_mult := a, tp_percent := b\<rparr>) history candle st
     = run_step self strat history candle st"
  unfolding run_step_def check_signal_ignores_exit_params ..

lemma run_loop_ignores_exit_params:
  "run_loop self (strat\<lparr>stop_atr_mult := a, tp_percent := b\<rparr>) history candles st
     = run_loop self strat history candles st"
proof (induction candles arbitrary: history st)
  case Nil
  show ?case by simp
next
  case (Cons c cs)
  show ?case
    unfolding run_loop.simps run_step_ignores_exit_params Cons.IH ..
qed

lemma run_step_opens:
  assumes "position st = None"
    and "run_step self strat history candle st = Inr st'"
    and "position st' = Some p"
  shows "entry p = close candle * (1 + 0.005) \<and>
         qty p = (capital self * 0.1) / entry p \<and>
         sl p = entry p * 0.85 \<and> tp p = entry p * 1.30"
proof (cases "check_signal candle strat history")
  case (Inl e)
  with assms(2) show ?thesis by (simp add: run_step_def)
next
  case (Inr sig)
  show ?thesis
  proof (cases "sig = BUY")
    case False
    with Inr assms show ?thesis by (simp add: run_step_def)
  next
    case True
    show ?thesis
    proof (cases "close candle * (1 + FEES_slippage) = 0")
      case z: True
      with Inr True assms(1,2) show ?thesis
        by (simp add: run_step_def py_truediv_def)
    next
      case nz: False
      with Inr True assms(1,2)
      have "st' = st\<lparr>position := Some
              \<lparr>entry = close candle * (1 + FEES_slippage),
               qty = capital self * 0.1 / (close candle * (1 + FEES_slippage)),
               fees = capital self * 0.1 / (close candle * (1 + FEES_slippage))
                        * (close candle * (1 + FEES_slippage)) * FEES_swap + FEES_network,
               sl = close candle * (1 + FEES_slippage) * 0.85,
               tp = close candle * (1 + FEES_slippage) * 1.30\<rparr>\<rparr>"
        by (simp add: run_step_def py_truediv_def Let_def)
      with assms(3) have "p = \<lparr>entry = close candle * (1 + FEES_slippage),
               qty = capital self * 0.1 / (close candle * (1 + FEES_slippage)),
               fees = capital self * 0.1 / (close candle * (1 + FEES_slippage))
                        * (close candle * (1 + FEES_slippage)) * FEES_swap + FEES_network,
               sl = close candle * (1 + FEES_slippage) * 0.85,
               tp = close candle * (1 + FEES_slippage) * 1.30\<rparr>"
        by simp
      then show ?thesis by (simp add: FEES_slippage_def)
    qed
  qed
qed

lemma run_step_levels:
  assumes inv: "\<And>p. position st = Some p \<Longrightarrow>
                  (\<exists>c \<in> C. entry p = close c * (1 + 0.005)) \<and>
                  qty p = (capital self * 0.1) / entry p \<and>
                  sl p = entry p * 0.85 \<and> tp p = entry p * 1.30"
    and step: "run_step self strat history candle st = Inr st'"
    and open': "position st' = Some q"
  shows "(\<exists>c \<in> insert candle C. entry q = close c * (1 + 0.005)) \<and>
         qty q = (capital self * 0.1) / entry q \<and>
         sl q = entry q * 0.85 \<and> tp q = entry q * 1.30"
proof (cases "position st")
  case None
  from run_step_opens [OF None step open'] show ?thesis by simp
next
  case (Some p)
  from run_step_long [OF Some step] open' have "q = p" by auto
  with inv [OF Some] show ?thesis by auto
qed

lemma run_loop_levels:
  assumes "\<And>p. position st = Some p \<Longrightarrow>
                  (\<exists>c \<in> C. entry p = close c * (1 + 0.005)) \<and>
                  qty p = (capital self * 0.1) / entry p \<and>
                  sl p = entry p * 0.85 \<and> tp p = entry p * 1.30"
    and "run_loop self strat history candles st = Inr final"
    and "position final = Some q"
  shows "(\<exists>c \<in> C \<union> set candles. entry q = close c * (1 + 0.005)) \<and>
         qty q = (capital self * 0.1) / entry q \<and>
         sl q = entry q * 0.85 \<and> tp q = entry q * 1.30"
  using assms
proof (induction candles arbitrary: history st C)
  case Nil
  then show ?case by simp
next
  case (Cons c cs)
  from Cons.prems(2) obtain st1 where
    s1: "run_step self strat history c st = Inr st1" and
    rest: "run_loop self strat (history @ [c]) cs st1 = Inr final"
    by (auto split: sum.splits)
  have "(\<exists>c' \<in> insert c C \<union> set cs. entry q = close c' * (1 + 0.005)) \<and>
         qty q = (capital self * 0.1) / entry q \<and>
         sl q = entry q * 0.85 \<and> tp q = entry q * 1.30"
  proof (rule Cons.IH [OF _ rest Cons.prems(3)])
    fix p assume "position st1 = Some p"
    with Cons.prems(1) s1
    show "(\<exists>c' \<in> insert c C. entry p = close c' * (1 + 0.005)) \<and>
         qty p = (capital self * 0.1) / entry p \<and>
         sl p = entry p * 0.85 \<and> tp p = entry p * 1.30"
      by (rule run_step_levels)
  qed
  then show ?case by simp
qed

lemma run_ignores_exit_params:
  "run self candles (strat\<lparr>stop_atr_mult := a, tp_percent := b\<rparr>) = run self candles strat"
  unfolding run_def run_loop_ignores_exit_params ..

text \<open>
  C6. Whenever an iteration of \<^verbatim>\<open>run\<close> opens a position, its entry price is the candle's
  close times \<open>1 + 0.005\<close>, its quantity 10\% of the engine's capital divided by the entry
  price, its stop \<open>entry * 0.85\<close> and its take-profit \<open>entry * 1.30\<close>; the position held
  after any run (so after any prefix of a run) has these levels, with the entry price taken
  from one of the candles seen. The strategy's \<open>stop_atr_mult\<close> and \<open>tp_percent\<close> have no
  influence: changing them changes nothing in what \<^verbatim>\<open>run\<close> returns.
\<close>

theorem backtest_fixed_exit_levels:
  "(position st = None \<and> run_step self strat history candle st = Inr st' \<and>
    position st' = Some p \<longrightarrow>
      entry p = close candle * (1 + 0.005) \<and>
      qty p = (capital self * 0.1) / entry p \<and>
      sl p = entry p * 0.85 \<and> tp p = entry p * 1.30) \<and>
   (run_loop self strat [] seen (run_init self) = Inr final \<and>
    position final = Some q \<longrightarrow>
      (\<exists>c \<in> set seen. entry q = close c * (1 + 0.005)) \<and>
      qty q = (capital self * 0.1) / entry q \<and>
      sl q = entry q * 0.85 \<and> tp q = entry q * 1.30) \<and>
   run self candles (strat\<lparr>stop_atr_mult := a, tp_percent := b\<rparr>) = run self candles strat"
proof -
  have one: "entry p = close candle * (1 + 0.005) \<and>
      qty p = (capital self * 0.1) / entry p \<and>
      sl p = entry p * 0.85 \<and> tp p = entry p * 1.30"
    if h: "position st = None \<and> run_step self strat history candle st = Inr st' \<and>
    position st' = Some p"
  proof -
    from h have "position st = None" "run_step self strat history candle st = Inr st'"
      "position st' = Some p" by simp_all
    then show ?thesis by (rule run_step_opens)
  qed
  have init: "\<And>p. position (run_init self) = Some p \<Longrightarrow>
                  (\<exists>c \<in> {}. entry p = close c * (1 + 0.005)) \<and>
                  qty p = (capital self * 0.1) / entry p \<and>
                  sl p = entry p * 0.85 \<and> tp p = entry p * 1.30"
    by (simp add: run_init_def)
  have two: "(\<exists>c \<in> set seen. entry q = close c * (1 + 0.005)) \<and>
      qty q = (capital self * 0.1) / entry q \<and>
      sl q = entry q * 0.85 \<and> tp q = entry q * 1.30"
    if h: "run_loop self strat [] seen (run_init self) = Inr final \<and>
    position final = Some q"
  proof -
    from h have r: "run_loop self strat [] seen (run_init self) = Inr final"
      and f: "position final = Some q" by simp_all
    from run_loop_levels [OF init r f] show ?thesis by simp
  qed
  have three: "run self candles (strat\<lparr>stop_atr_mult := a, tp_percent := b\<rparr>)
          = run self candles strat"
    by (rule run_ignores_exit_params)
  show ?thesis
    apply (rule conjI)
     apply (rule impI)
     apply (erule one)
    apply (rule conjI)
     apply (rule impI)
     apply (erule two)
    apply (rule three)
    done
qed

lemma ex_step_2:
  "run_step ex_engine ex_strategy (take 1 ex_candles) (ex_candles ! 1) (run_init ex_engine)
     = Inr ex_long"
  by (simp add: ex_candles_def ex_strategy_def ex_engine_def run_init_def ex_long_def
      ex_position_def run_step_def check_signal_def calculate_rsi_def dict_get_def
      py_truediv_def FEES_swap_def FEES_slippage_def FEES_network_def)

theorem backtest_fixed_exit_levels_witness:
  "position (run_init ex_engine) = None \<and>
   run_step ex_engine ex_strategy (take 1 ex_candles) (ex_candles ! 1) (run_init ex_engine)
     = Inr ex_long \<and>
   position ex_long = Some ex_position \<and>
   run_loop ex_engine ex_strategy [] (take 2 ex_candles) (run_init ex_engine) = Inr ex_long \<and>
   entry ex_position = close (ex_candles ! 1) * (1 + 0.005) \<and>
   qty ex_position = (capital ex_engine * 0.1) / entry ex_position \<and>
   sl ex_position = entry ex_position * 0.85 \<and>
   tp ex_position = entry ex_position * 1.30 \<and>
   run ex_engine ex_candles (ex_strategy\<lparr>stop_atr_mult := Some 2.5, tp_percent := Some 0.4\<rparr>)
     = run ex_engine ex_candles ex_strategy"
proof -
  have a: "position (run_init ex_engine) = None" by (simp add: run_init_def)
  have b: "run_step ex_engine ex_strategy (take 1 ex_candles) (ex_candles ! 1)
             (run_init ex_engine) = Inr ex_long"
    by (rule ex_step_2)
  have c: "position ex_long = Some ex_position" by (simp add: ex_long_def)
  have d: "run_loop ex_engine ex_strategy [] (take 2 ex_candles) (run_init ex_engine)
             = Inr ex_long"
    by (rule ex_run_2)
  from backtest_fixed_exit_levels
    [where st = "run_init ex_engine" and self = ex_engine and strat = ex_strategy
       and history = "take 1 ex_candles" and candle = "ex_candles ! 1" and st' = ex_long
       and p = ex_position and seen = "take 2 ex_candles" and final = ex_long
       and q = ex_position and candles = ex_candles and a = "Some 2.5" and b = "Some 0.4"]
    a b c d
  show ?thesis by simp
qed

text \<open>
  C10. \<^verbatim>\<open>run\<close> assigns to no attribute of the engine: the engine it leaves behind is the
  engine it was called on (capital, trades and equity curve included), with or without an
  exception, and a second call on that engine with the same candles and strategy returns
  the same result.
\<close>

theorem run_leaves_engine_unchanged:
  "snd (run self candles strat) = self \<and>
   capital (snd (run self candles strat)) = capital self \<and>
   self_trades (snd (run self candles strat)) = self_trades self \<and>
   equity_curve (snd (run self candles strat)) = equity_curve self \<and>
   fst (run (snd (run self candles strat)) candles strat) = fst (run self candles strat)"
proof -
  have "snd (run self candles strat) = self"
    by (simp add: run_def Let_def split: sum.splits)
  then show ?thesis by simp
qed

theorem run_leaves_engine_unchanged_witness:
  "snd (run ex_engine ex_candles ex_strategy) = ex_engine \<and>
   fst (run (snd (run ex_engine ex_candles ex_strategy)) ex_candles ex_strategy)
     = fst (run ex_engine ex_candles ex_strategy)"
  using run_leaves_engine_unchanged [of ex_engine ex_candles ex_strategy] by simp

section \<open>Properties of the strategy evolver\<close>

lemma select_best_cases:
  "(results = [] \<and> select_best self results = (Inl ValueError, self)) \<or>
   (\<exists>best. py_max res_win_rate results = Inr best \<and>
      \<not> res_win_rate best > best_win_rate self \<and> snd (select_best self results) = self) \<or>
   (\<exists>best. py_max res_win_rate results = Inr best \<and>
      res_win_rate best > best_win_rate self \<and>
      snd (select_best self results) =
        log_evolution best (self\<lparr>best_win_rate := res_win_rate best,
                                  base_strategy := res_params best\<rparr>))"
proof (cases results)
  case Nil
  then show ?thesis by (simp add: select_best_def py_max_def)
next
  case (Cons r rs)
  then have m: "py_max res_win_rate results = Inr (max_from res_win_rate r rs)"
    by (simp add: py_max_def)
  show ?thesis
  proof (cases "res_win_rate (max_from res_win_rate r rs) > best_win_rate self")
    case True
    with m show ?thesis by (simp add: select_best_def Let_def)
  next
    case False
    with m show ?thesis by (simp add: select_best_def Let_def)
  qed
qed

lemma select_best_monotone:
  "best_win_rate self \<le> best_win_rate (snd (select_best self results))"
  using select_best_cases [of results self]
  by (auto simp: log_evolution_def)

lemma select_best_calls_monotone:
  "best_win_rate self \<le> best_win_rate (select_best_calls self calls)"
proof (induction calls arbitrary: self)
  case Nil
  show ?case by simp
next
  case (Cons results later)
  have "best_win_rate self \<le> best_win_rate (snd (select_best self results))"
    by (rule select_best_monotone)
  also have "\<dots> \<le> best_win_rate (select_best_calls (snd (select_best self results)) later)"
    by (rule Cons.IH)
  finally show ?case by simp
qed

text \<open>
  C9. For a non-empty results list \<^verbatim>\<open>select_best\<close> returns a variant (the first result of
  greatest win rate) and never lowers \<open>best_win_rate\<close>. When the selected win rate is
  strictly above the previous best, it becomes the new \<open>best_win_rate\<close> and the selected
  parameters the new base strategy; otherwise the evolver is left exactly as it was, so
  the base strategy is replaced only on a strict improvement. Over any sequence of calls
  \<open>best_win_rate\<close> is non-decreasing.
\<close>

theorem select_best_never_lowers_best:
  "(results \<noteq> [] \<longrightarrow>
      best_win_rate self \<le> best_win_rate (snd (select_best self results)) \<and>
      (\<exists>best. py_max res_win_rate results = Inr best \<and>
         (\<exists>v. fst (select_best self results) = Inr v \<and> sv_win_rate v = res_win_rate best) \<and>
         (res_win_rate best > best_win_rate self \<longrightarrow>
            best_win_rate (snd (select_best self results)) = res_win_rate best \<and>
            base_strategy (snd (select_best self results)) = res_params best) \<and>
         (\<not> res_win_rate best > best_win_rate self \<longrightarrow>
            snd (select_best self results) = self))) \<and>
   best_win_rate self \<le> best_win_rate (select_best_calls self calls)"
proof -
  have one: "best_win_rate self \<le> best_win_rate (snd (select_best self results)) \<and>
      (\<exists>best. py_max res_win_rate results = Inr best \<and>
         (\<exists>v. fst (select_best self results) = Inr v \<and> sv_win_rate v = res_win_rate best) \<and>
         (res_win_rate best > best_win_rate self \<longrightarrow>
            best_win_rate (snd (select_best self results)) = res_win_rate best \<and>
            base_strategy (snd (select_best self results)) = res_params best) \<and>
         (\<not> res_win_rate best > best_win_rate self \<longrightarrow>
            snd (select_best self results) = self))"
    if ne: "results \<noteq> []"
  proof -
    from ne obtain r rs where c: "results = r # rs" by (cases results) auto
    then have m: "py_max res_win_rate results = Inr (max_from res_win_rate r rs)"
      by (simp add: py_max_def)
    let ?best = "max_from res_win_rate r rs"
    have v: "\<exists>v. fst (select_best self results) = Inr v \<and> sv_win_rate v = res_win_rate ?best"
      using m by (simp add: select_best_def Let_def)
    have up: "best_win_rate (snd (select_best self results)) = res_win_rate ?best \<and>
            base_strategy (snd (select_best self results)) = res_params ?best"
      if "res_win_rate ?best > best_win_rate self"
      using m that by (simp add: select_best_def Let_def log_evolution_def)
    have keep: "snd (select_best self results) = self"
      if "\<not> res_win_rate ?best > best_win_rate self"
      using m that by (simp add: select_best_def Let_def)
    have mono: "best_win_rate self \<le> best_win_rate (snd (select_best self results))"
      by (rule select_best_monotone)
    from m v up keep mono show ?thesis by blast
  qed
  have two: "best_win_rate self \<le> best_win_rate (select_best_calls self calls)"
    by (rule select_best_calls_monotone)
  show ?thesis
    apply (rule conjI)
     apply (rule impI)
     apply (erule one)
    apply (rule two)
    done
qed

lemma ex_select_best:
  "best_win_rate (snd (select_best ex_evolver ex_results)) = 0.7 \<and>
   rsi_period (base_strategy (snd (select_best ex_evolver ex_results))) = Some 12"
  by (simp add: select_best_def py_max_def ex_results_def ex_evolver_def log_evolution_def
      Let_def)

theorem select_best_never_lowers_best_witness:
  "ex_results \<noteq> [] \<and>
   best_win_rate ex_evolver \<le> best_win_rate (snd (select_best ex_evolver ex_results)) \<and>
   best_win_rate ex_evolver = 0.65 \<and>
   best_win_rate (snd (select_best ex_evolver ex_results)) = 0.7 \<and>
   best_win_rate ex_evolver
     \<le> best_win_rate (select_best_calls ex_evolver [ex_results, [], ex_results]) \<and>
   ex_results_low \<noteq> [] \<and>
   snd (select_best ex_evolver ex_results_low) = ex_evolver"
proof -
  have ne: "ex_results \<noteq> []" by (simp add: ex_results_def)
  have b: "best_win_rate ex_evolver = 0.65" by (simp add: ex_evolver_def)
  note t = select_best_never_lowers_best
             [of ex_results ex_evolver "[ex_results, [], ex_results]"]
  from t ne have m: "best_win_rate ex_evolver
                    \<le> best_win_rate (snd (select_best ex_evolver ex_results))"
    by (elim conjE) (drule (1) mp, elim conjE, assumption)
  from t have s: "best_win_rate ex_evolver
     \<le> best_win_rate (select_best_calls ex_evolver [ex_results, [], ex_results])"
    by (rule conjunct2)
  have up: "best_win_rate (snd (select_best ex_evolver ex_results)) = 0.7"
    by (rule conjunct1 [OF ex_select_best])
  have nl: "ex_results_low \<noteq> []" by (simp add: ex_results_low_def)
  note t' = select_best_never_lowers_best [of ex_results_low ex_evolver "[]"]
  from conjunct1 [OF t'] nl obtain best where
    mx: "py_max res_win_rate ex_results_low = Inr best" and
    keep: "\<not> res_win_rate best > best_win_rate ex_evolver \<longrightarrow>
             snd (select_best ex_evolver ex_results_low) = ex_evolver"
    by blast
  from mx have "res_win_rate best = 0.6"
    by (auto simp: py_max_def ex_results_low_def)
  with b have "\<not> res_win_rate best > best_win_rate ex_evolver" by simp
  with keep have low: "snd (select_best ex_evolver ex_results_low) = ex_evolver" by (rule mp)
  show ?thesis
    apply (intro conjI)
          apply (rule ne)
         apply (rule m)
        apply (rule b)
       apply (rule up)
      apply (rule s)
     apply (rule nl)
    apply (rule low)
    done
qed

section \<open>Properties of the trade manager\<close>

lemma dict_setitem_new:
  "k \<notin> fst ` set kvs \<Longrightarrow> dict_setitem kvs k v = kvs @ [(k, v)]"
  by (induction kvs) auto

lemma ex_buy: "execute_buy ex_env ex_config ex_manager m a = Some 40"
  by (simp add: execute_buy_def ex_env_def dict_get_def)

lemma Position_str_cases:
  "Position_str pos =
     (if position_size_usdc pos = 0 then Inl ZeroDivisionError else Inr ())"
  by (simp add: Position_str_def unrealized_pnl_percent_def py_truediv_def)

lemma open_position_rejects:
  assumes "mint' \<in> fst ` set (positions self) \<or>
           int (length (positions self)) \<ge> MAX_SIMULTANEOUS_POSITIONS cfg \<or>
           execute_buy e cfg self mint' (min amount_usdc (MAX_POSITION_SIZE_USDC cfg)) = None \<or>
           (\<exists>t. execute_buy e cfg self mint' (min amount_usdc (MAX_POSITION_SIZE_USDC cfg))
                  = Some t \<and> t \<le> 0)"
  shows "open_position e cfg mint' symbol' price_usd amount_usdc self = (Inr None, self)"
  using assms
  by (auto simp: open_position_def Let_def split: option.splits)

lemma open_position_accepts:
  assumes new: "mint' \<notin> fst ` set (positions self)"
    and room: "int (length (positions self)) < MAX_SIMULTANEOUS_POSITIONS cfg"
    and buy: "execute_buy e cfg self mint' (min amount_usdc (MAX_POSITION_SIZE_USDC cfg))
                = Some t"
    and pos: "0 < t"
    and p: "p = \<lparr>mint = mint', symbol = symbol', entry_price_usd = price_usd,
            entry_time = time_time e,
            position_size_usdc = min amount_usdc (MAX_POSITION_SIZE_USDC cfg),
            token_amount = t,
            stop_loss_price = price_usd * (1 + STOP_LOSS_PERCENT cfg / 100),
            take_profit_price = price_usd * (1 + TAKE_PROFIT_PERCENT cfg / 100),
            current_price_usd = price_usd, realized_pnl_usd = 0\<rparr>"
  shows "open_position e cfg mint' symbol' price_usd amount_usdc self =
     (if min amount_usdc (MAX_POSITION_SIZE_USDC cfg) = 0 then Inl ZeroDivisionError
      else Inr (Some p),
      save_state e (log_trade e ''OPEN'' p ''''
        (self\<lparr>positions := positions self @ [(mint', p)]\<rparr>)))"
proof -
  from room have r: "\<not> int (length (positions self)) \<ge> MAX_SIMULTANEOUS_POSITIONS cfg"
    by simp
  from pos have nz: "\<not> t \<le> 0" by simp
  have sz: "position_size_usdc p = min amount_usdc (MAX_POSITION_SIZE_USDC cfg)"
    by (simp add: p)
  have "open_position e cfg mint' symbol' price_usd amount_usdc self =
     (case Position_str p of
        Inl err \<Rightarrow> (Inl err, save_state e (log_trade e ''OPEN'' p ''''
                       (self\<lparr>positions := positions self @ [(mint', p)]\<rparr>)))
      | Inr u \<Rightarrow> (Inr (Some p), save_state e (log_trade e ''OPEN'' p ''''
                       (self\<lparr>positions := positions self @ [(mint', p)]\<rparr>))))"
    unfolding open_position_def Let_def p
    by (simp only: new r buy nz if_False option.case dict_setitem_new [OF new])
  then show ?thesis
    by (simp add: Position_str_cases sz)
qed

text \<open>
  C3. \<^verbatim>\<open>open_position\<close> returns \<open>None\<close> and leaves the whole state (positions, trade
  history, trade log and state file) as it was when the mint is already open, when the
  number of open positions has reached \<open>MAX_SIMULTANEOUS_POSITIONS\<close>, or when the buy
  returns \<open>None\<close> or an amount \<open>\<le> 0\<close>. In the one remaining case, a positive fill, it
  adds the new Position, whose size is \<open>min amount_usdc MAX_POSITION_SIZE_USDC\<close>, to the
  positions under its mint, appends one OPEN record to the history and to the log, and
  writes to the state file the JSON object whose \<open>positions\<close> are the old positions
  followed by the ten fields of the new one. The method then returns the Position, unless
  its size is 0: then the closing log line raises ZeroDivisionError after the state has
  been written.
\<close>

theorem open_position_all_or_nothing:
  "(mint' \<in> fst ` set (positions self) \<or>
    int (length (positions self)) \<ge> MAX_SIMULTANEOUS_POSITIONS cfg \<or>
    execute_buy e cfg self mint' (min amount_usdc (MAX_POSITION_SIZE_USDC cfg)) = None \<or>
    (\<exists>t. execute_buy e cfg self mint' (min amount_usdc (MAX_POSITION_SIZE_USDC cfg))
           = Some t \<and> t \<le> 0)
    \<longrightarrow> open_position e cfg mint' symbol' price_usd amount_usdc self = (Inr None, self)) \<and>
   (mint' \<notin> fst ` set (positions self) \<and>
    int (length (positions self)) < MAX_SIMULTANEOUS_POSITIONS cfg \<and>
    execute_buy e cfg self mint' (min amount_usdc (MAX_POSITION_SIZE_USDC cfg)) = Some t \<and>
    0 < t
    \<longrightarrow> (\<exists>pos r ts self'.
          snd (open_position e cfg mint' symbol' price_usd amount_usdc self) = self' \<and>
          fst (open_position e cfg mint' symbol' price_usd amount_usdc self) =
            (if min amount_usdc (MAX_POSITION_SIZE_USDC cfg) = 0 then Inl ZeroDivisionError
             else Inr (Some pos)) \<and>
          mint pos = mint' \<and> symbol pos = symbol' \<and>
          entry_price_usd pos = price_usd \<and>
          position_size_usdc pos = min amount_usdc (MAX_POSITION_SIZE_USDC cfg) \<and>
          token_amount pos = t \<and>
          stop_loss_price pos = price_usd * (1 + STOP_LOSS_PERCENT cfg / 100) \<and>
          take_profit_price pos = price_usd * (1 + TAKE_PROFIT_PERCENT cfg / 100) \<and>
          current_price_usd pos = price_usd \<and> realized_pnl_usd pos = 0 \<and>
          wallet_public_key self' = wallet_public_key self \<and>
          positions self' = positions self @ [(mint', pos)] \<and>
          trade_history self' = trade_history self @ [r] \<and>
          trades_log_file self' = trades_log_file self @ [r] \<and>
          tr_action r = ''OPEN'' \<and> tr_mint r = mint' \<and> tr_symbol r = symbol' \<and>
          tr_entry_price r = price_usd \<and> tr_current_price r = price_usd \<and>
          tr_position_size_usdc r = min amount_usdc (MAX_POSITION_SIZE_USDC cfg) \<and>
          tr_token_amount r = t \<and> tr_pnl_usd r = 0 \<and> tr_reason r = '''' \<and>
          state_file self' = Some (JObj
            [(''positions'', JObj
               (map (\<lambda>kv. (fst kv, to_dict (snd kv))) (positions self) @
                [(mint', JObj
                   [(''mint'', JStr mint'),
                    (''symbol'', JStr symbol'),
                    (''entry_price_usd'', JNum price_usd),
                    (''entry_time'', JNum (entry_time pos)),
                    (''position_size_usdc'',
                       JNum (min amount_usdc (MAX_POSITION_SIZE_USDC cfg))),
                    (''token_amount'', JNum t),
                    (''stop_loss_price'',
                       JNum (price_usd * (1 + STOP_LOSS_PERCENT cfg / 100))),
                    (''take_profit_price'',
                       JNum (price_usd * (1 + TAKE_PROFIT_PERCENT cfg / 100))),
                    (''current_price_usd'', JNum price_usd),
                    (''realized_pnl_usd'', JNum 0)])])),
             (''last_updated'', JNum ts)])))"
proof -
  let ?size = "min amount_usdc (MAX_POSITION_SIZE_USDC cfg)"
  let ?pos = "\<lparr>mint = mint', symbol = symbol', entry_price_usd = price_usd,
            entry_time = time_time e, position_size_usdc = ?size, token_amount = t,
            stop_loss_price = price_usd * (1 + STOP_LOSS_PERCENT cfg / 100),
            take_profit_price = price_usd * (1 + TAKE_PROFIT_PERCENT cfg / 100),
            current_price_usd = price_usd, realized_pnl_usd = 0\<rparr>"
  let ?r = "\<lparr>tr_timestamp = now_isoformat e, tr_action = ''OPEN'', tr_mint = mint',
         tr_symbol = symbol', tr_entry_price = price_usd, tr_current_price = price_usd,
         tr_position_size_usdc = ?size, tr_token_amount = t, tr_pnl_usd = 0,
         tr_reason = ''''\<rparr>"
  let ?self' = "save_state e (log_trade e ''OPEN'' ?pos ''''
        (self\<lparr>positions := positions self @ [(mint', ?pos)]\<rparr>))"
  let ?P = "\<lambda>pos r ts self'.
          snd (open_position e cfg mint' symbol' price_usd amount_usdc self) = self' \<and>
          fst (open_position e cfg mint' symbol' price_usd amount_usdc self) =
            (if min amount_usdc (MAX_POSITION_SIZE_USDC cfg) = 0 then Inl ZeroDivisionError
             else Inr (Some pos)) \<and>
          mint pos = mint' \<and> symbol pos = symbol' \<and>
          entry_price_usd pos = price_usd \<and>
          position_size_usdc pos = min amount_usdc (MAX_POSITION_SIZE_USDC cfg) \<and>
          token_amount pos = t \<and>
          stop_loss_price pos = price_usd * (1 + STOP_LOSS_PERCENT cfg / 100) \<and>
          take_profit_price pos = price_usd * (1 + TAKE_PROFIT_PERCENT cfg / 100) \<and>
          current_price_usd pos = price_usd \<and> realized_pnl_usd pos = 0 \<and>
          wallet_public_key self' = wallet_public_key self \<and>
          positions self' = positions self @ [(mint', pos)] \<and>
          trade_history self' = trade_history self @ [r] \<and>
          trades_log_file self' = trades_log_file self @ [r] \<and>
          tr_action r = ''OPEN'' \<and> tr_mint r = mint' \<and> tr_symbol r = symbol' \<and>
          tr_entry_price r = price_usd \<and> tr_current_price r = price_usd \<and>
          tr_position_size_usdc r = min amount_usdc (MAX_POSITION_SIZE_USDC cfg) \<and>
          tr_token_amount r = t \<and> tr_pnl_usd r = 0 \<and> tr_reason r = '''' \<and>
          state_file self' = Some (JObj
            [(''positions'', JObj
               (map (\<lambda>kv. (fst kv, to_dict (snd kv))) (positions self) @
                [(mint', JObj
                   [(''mint'', JStr mint'),
                    (''symbol'', JStr symbol'),
                    (''entry_price_usd'', JNum price_usd),
                    (''entry_time'', JNum (entry_time pos)),
                    (''position_size_usdc'',
                       JNum (min amount_usdc (MAX_POSITION_SIZE_USDC cfg))),
                    (''token_amount'', JNum t),
                    (''stop_loss_price'',
                       JNum (price_usd * (1 + STOP_LOSS_PERCENT cfg / 100))),
                    (''take_profit_price'',
                       JNum (price_usd * (1 + TAKE_PROFIT_PERCENT cfg / 100))),
                    (''current_price_usd'', JNum price_usd),
                    (''realized_pnl_usd'', JNum 0)])])),
             (''last_updated'', JNum ts)])"
  have two: "\<exists>pos r ts self'. ?P pos r ts self'"
    if h: "mint' \<notin> fst ` set (positions self) \<and>
      int (length (positions self)) < MAX_SIMULTANEOUS_POSITIONS cfg \<and>
      execute_buy e cfg self mint' (min amount_usdc (MAX_POSITION_SIZE_USDC cfg)) = Some t \<and>
      0 < t"
  proof -
    from h have a: "mint' \<notin> fst ` set (positions self)"
      and b: "int (length (positions self)) < MAX_SIMULTANEOUS_POSITIONS cfg"
      and c: "execute_buy e cfg self mint' (min amount_usdc (MAX_POSITION_SIZE_USDC cfg))
                = Some t"
      and d: "0 < t" by simp_all
    have "?P ?pos ?r (time_time e) ?self'"
      unfolding open_position_accepts [OF a b c d refl]
      by (simp add: save_state_def log_trade_def snapshot_def to_dict_def Let_def)
    then show ?thesis
      apply -
      apply (rule exI [where x = "?pos"])
      apply (rule exI [where x = "?r"])
      apply (rule exI [where x = "time_time e"])
      apply (rule exI [where x = "?self'"])
      apply assumption
      done
  qed
  show ?thesis
    apply (rule conjI)
     apply (rule impI)
     apply (erule open_position_rejects)
    apply (rule impI)
    apply (erule two)
    done
qed

theorem open_position_all_or_nothing_witness:
  "''AAA'' \<in> fst ` set (positions ex_manager) \<and>
   open_position ex_env ex_config ''AAA'' ''A'' 2 80 ex_manager = (Inr None, ex_manager) \<and>
   ''CCC'' \<notin> fst ` set (positions ex_manager) \<and>
   int (length (positions ex_manager)) < MAX_SIMULTANEOUS_POSITIONS ex_config \<and>
   execute_buy ex_env ex_config ex_manager ''CCC''
     (min 80 (MAX_POSITION_SIZE_USDC ex_config)) = Some 40 \<and>
   (0::real) < 40 \<and>
   (\<exists>pos. fst (open_position ex_env ex_config ''CCC'' ''C'' 2 80 ex_manager)
            = Inr (Some pos) \<and>
      position_size_usdc pos = 50 \<and>
      positions (snd (open_position ex_env ex_config ''CCC'' ''C'' 2 80 ex_manager))
        = positions ex_manager @ [(''CCC'', pos)]) \<and>
   execute_buy ex_env ex_config ex_manager ''CCC''
     (min 0 (MAX_POSITION_SIZE_USDC ex_config)) = Some 40 \<and>
   fst (open_position ex_env ex_config ''CCC'' ''C'' 2 0 ex_manager) = Inl ZeroDivisionError \<and>
   map fst (positions (snd (open_position ex_env ex_config ''CCC'' ''C'' 2 0 ex_manager)))
     = [''AAA'', ''BBB'', ''CCC'']"
proof -
  have a: "''AAA'' \<in> fst ` set (positions ex_manager)"
    by (simp add: ex_manager_def)
  note t1 = open_position_all_or_nothing
      [where mint' = "''AAA''" and self = ex_manager and cfg = ex_config and e = ex_env
         and amount_usdc = 80 and symbol' = "''A''" and price_usd = 2]
  have r: "open_position ex_env ex_config ''AAA'' ''A'' 2 80 ex_manager
             = (Inr None, ex_manager)"
    by (rule mp [OF conjunct1 [OF t1]]) (rule disjI1, rule a)
  have b: "''CCC'' \<notin> fst ` set (positions ex_manager)"
    by (simp add: ex_manager_def)
  have c: "int (length (positions ex_manager)) < MAX_SIMULTANEOUS_POSITIONS ex_config"
    by (simp add: ex_manager_def ex_config_def)
  have d: "execute_buy ex_env ex_config ex_manager ''CCC''
             (min 80 (MAX_POSITION_SIZE_USDC ex_config)) = Some 40"
    by (rule ex_buy)
  have p40: "(0::real) < 40" by simp
  have m: "min 80 (MAX_POSITION_SIZE_USDC ex_config) = 50"
    by (simp add: ex_config_def)
  note t2 = open_position_all_or_nothing
      [where mint' = "''CCC''" and self = ex_manager and cfg = ex_config and e = ex_env
         and amount_usdc = 80 and symbol' = "''C''" and price_usd = 2 and t = 40]
  have h2: "''CCC'' \<notin> fst ` set (positions ex_manager) \<and>
    int (length (positions ex_manager)) < MAX_SIMULTANEOUS_POSITIONS ex_config \<and>
    execute_buy ex_env ex_config ex_manager ''CCC''
      (min 80 (MAX_POSITION_SIZE_USDC ex_config)) = Some 40 \<and> (0::real) < 40"
    by (intro conjI b c d p40)
  from mp [OF conjunct2 [OF t2] h2] obtain pos self' where
    s: "snd (open_position ex_env ex_config ''CCC'' ''C'' 2 80 ex_manager) = self'" and
    f: "fst (open_position ex_env ex_config ''CCC'' ''C'' 2 80 ex_manager) =
          (if min 80 (MAX_POSITION_SIZE_USDC ex_config) = 0 then Inl ZeroDivisionError
           else Inr (Some pos))" and
    z: "position_size_usdc pos = min 80 (MAX_POSITION_SIZE_USDC ex_config)" and
    ps: "positions self' = positions ex_manager @ [(''CCC'', pos)]"
    by blast
  from f have f': "fst (open_position ex_env ex_config ''CCC'' ''C'' 2 80 ex_manager)
                     = Inr (Some pos)"
    unfolding m by simp
  from z have z': "position_size_usdc pos = 50" unfolding m .
  from ps s have ps': "positions (snd (open_position ex_env ex_config ''CCC'' ''C'' 2 80
                          ex_manager)) = positions ex_manager @ [(''CCC'', pos)]"
    by simp
  from f' z' ps' have x: "\<exists>pos.
      fst (open_position ex_env ex_config ''CCC'' ''C'' 2 80 ex_manager) = Inr (Some pos) \<and>
      position_size_usdc pos = 50 \<and>
      positions (snd (open_position ex_env ex_config ''CCC'' ''C'' 2 80 ex_manager))
        = positions ex_manager @ [(''CCC'', pos)]"
    by blast
  have d0: "execute_buy ex_env ex_config ex_manager ''CCC''
             (min 0 (MAX_POSITION_SIZE_USDC ex_config)) = Some 40"
    by (rule ex_buy)
  have m0: "min 0 (MAX_POSITION_SIZE_USDC ex_config) = 0"
    by (simp add: ex_config_def)
  note t3 = open_position_all_or_nothing
      [where mint' = "''CCC''" and self = ex_manager and cfg = ex_config and e = ex_env
         and amount_usdc = 0 and symbol' = "''C''" and price_usd = 2 and t = 40]
  have h3: "''CCC'' \<notin> fst ` set (positions ex_manager) \<and>
    int (length (positions ex_manager)) < MAX_SIMULTANEOUS_POSITIONS ex_config \<and>
    execute_buy ex_env ex_config ex_manager ''CCC''
      (min 0 (MAX_POSITION_SIZE_USDC ex_config)) = Some 40 \<and> (0::real) < 40"
    by (intro conjI b c d0 p40)
  from mp [OF conjunct2 [OF t3] h3] obtain pos0 self0 where
    s0: "snd (open_position ex_env ex_config ''CCC'' ''C'' 2 0 ex_manager) = self0" and
    f0: "fst (open_position ex_env ex_config ''CCC'' ''C'' 2 0 ex_manager) =
          (if min 0 (MAX_POSITION_SIZE_USDC ex_config) = 0 then Inl ZeroDivisionError
           else Inr (Some pos0))" and
    ps0: "positions self0 = positions ex_manager @ [(''CCC'', pos0)]"
    by blast
  from f0 have e0: "fst (open_position ex_env ex_config ''CCC'' ''C'' 2 0 ex_manager)
                      = Inl ZeroDivisionError"
    unfolding m0 by simp
  from ps0 s0 have k0: "map fst (positions (snd (open_position ex_env ex_config ''CCC'' ''C''
                          2 0 ex_manager))) = [''AAA'', ''BBB'', ''CCC'']"
    by (simp add: ex_manager_def)
  show ?thesis
    apply (intro conjI)
             apply (rule a)
            apply (rule r)
           apply (rule b)
          apply (rule c)
         apply (rule d)
        apply (rule p40)
       apply (rule x)
      apply (rule d0)
     apply (rule e0)
    apply (rule k0)
    done
qed

lemma from_dict_to_dict: "from_dict (to_dict p) = Inr p"
  by (simp add: from_dict_def to_dict_def Position_fields_def json_str_def json_num_def)

lemma load_loop_saved:
  assumes "distinct (map fst (positions self @ ps))"
  shows "load_loop (map (\<lambda>kv. (fst kv, to_dict (snd kv))) ps) self
           = self\<lparr>positions := positions self @ ps\<rparr>"
  using assms
proof (induction ps arbitrary: self)
  case Nil
  show ?case by simp
next
  case (Cons kv ps)
  obtain k v where kv: "kv = (k, v)" by (cases kv)
  from Cons.prems kv have new: "k \<notin> fst ` set (positions self)" by auto
  let ?self1 = "self\<lparr>positions := positions self @ [(k, v)]\<rparr>"
  from Cons.prems kv have d: "distinct (map fst (positions ?self1 @ ps))" by simp
  have "load_loop (map (\<lambda>kv. (fst kv, to_dict (snd kv))) (kv # ps)) self
          = load_loop (map (\<lambda>kv. (fst kv, to_dict (snd kv))) ps) ?self1"
    by (simp add: kv from_dict_to_dict dict_setitem_new [OF new])
  also have "\<dots> = ?self1\<lparr>positions := positions ?self1 @ ps\<rparr>"
    by (rule Cons.IH [OF d])
  also have "\<dots> = self\<lparr>positions := positions self @ kv # ps\<rparr>"
    by (simp add: kv)
  finally show ?case .
qed

lemma load_state_saved:
  assumes "distinct (map fst ps)"
  shows "TradeManager_init wallet (Some (snapshot e ps)) tlog
           = \<lparr>wallet_public_key = wallet, positions = ps, trade_history = [],
              state_file = Some (snapshot e ps), trades_log_file = tlog\<rparr>"
proof -
  let ?fresh = "\<lparr>wallet_public_key = wallet, positions = [], trade_history = [],
                  state_file = Some (snapshot e ps), trades_log_file = tlog\<rparr>"
  have d: "distinct (map fst (positions ?fresh @ ps))" using assms by simp
  have "load_state ?fresh = load_loop (map (\<lambda>kv. (fst kv, to_dict (snd kv))) ps) ?fresh"
    by (simp add: load_state_def snapshot_def)
  also have "\<dots> = ?fresh\<lparr>positions := positions ?fresh @ ps\<rparr>"
    by (rule load_loop_saved [OF d])
  finally show ?thesis by (simp add: TradeManager_init_def)
qed

text \<open>
  C4. The position set is a dict, so its keys are distinct. After \<^verbatim>\<open>_save_state\<close>, a
  TradeManager constructed on the files left behind holds exactly the saved position set:
  the same mints in the same order, each with a Position equal in every field.
\<close>

theorem save_load_roundtrip:
  assumes "distinct (map fst (positions self))"
  shows "positions (TradeManager_init wallet (state_file (save_state e self))
                      (trades_log_file (save_state e self)))
           = positions self"
proof -
  have "state_file (save_state e self) = Some (snapshot e (positions self))"
    by (simp add: save_state_def)
  then show ?thesis
    by (simp add: load_state_saved [OF assms])
qed

theorem save_load_roundtrip_witness:
  "distinct (map fst (positions ex_manager)) \<and>
   positions (TradeManager_init ''wallet2'' (state_file (save_state ex_env ex_manager))
                (trades_log_file (save_state ex_env ex_manager)))
     = [(''AAA'', ex_pos_a), (''BBB'', ex_pos_b)]"
proof -
  have d: "distinct (map fst (positions ex_manager))"
    by (simp add: ex_manager_def)
  have p: "positions ex_manager = [(''AAA'', ex_pos_a), (''BBB'', ex_pos_b)]"
    by (simp add: ex_manager_def)
  from save_load_roundtrip [OF d, of "''wallet2''" ex_env] d show ?thesis
    unfolding p by simp
qed

lemma execute_sell_positions:
  "execute_sell e cfg (self\<lparr>positions := ps\<rparr>) m a = execute_sell e cfg self m a"
  by (simp add: execute_sell_def Let_def cong: option.case_cong)


lemma map_of_dict_setitem: "map_of (dict_setitem kvs k v) k = Some v"
  by (induction kvs) auto


lemma dict_delitem_setitem: "dict_delitem (dict_setitem kvs k v) k = dict_delitem kvs k"
  by (induction kvs) (auto simp: dict_delitem_def)

lemma length_dict_setitem:
  "map_of kvs k = Some v' \<Longrightarrow> length (dict_setitem kvs k v) = length kvs"
  by (induction kvs) (auto split: if_splits)

lemma length_dict_delitem:
  "map_of kvs k = Some v \<Longrightarrow> length (dict_delitem kvs k) < length kvs"
proof (induction kvs)
  case Nil
  then show ?case by simp
next
  case (Cons kv kvs)
  have le: "length (filter (\<lambda>kv. fst kv \<noteq> k) kvs) < Suc (length kvs)"
    by (simp add: le_imp_less_Suc)
  show ?case
  proof (cases "fst kv = k")
    case True
    with le show ?thesis by (simp add: dict_delitem_def)
  next
    case False
    with Cons.prems have "map_of kvs k = Some v" by (cases kv) (simp split: if_splits)
    from Cons.IH [OF this] False show ?thesis by (simp add: dict_delitem_def)
  qed
qed



lemma unrealized_pnl_percent_cases:
  "unrealized_pnl_percent pos =
     (if position_size_usdc pos = 0 then Inl ZeroDivisionError
      else Inr (unrealized_pnl_usd pos / position_size_usdc pos * 100))"
  by (simp add: unrealized_pnl_percent_def py_truediv_def)

lemma close_position_obj_raises:
  assumes "map_of (positions self) m = Some pos"
    and "position_size_usdc pos = 0"
  shows "close_position_obj e cfg m reason self = (Inl ZeroDivisionError, self)"
  using assms by (simp add: close_position_obj_def unrealized_pnl_percent_cases)

lemma close_position_obj_success:
  assumes "map_of (positions self) m = Some pos"
    and "position_size_usdc pos \<noteq> 0"
    and "execute_sell e cfg self m (token_amount pos) = Some usdc"
  shows "close_position_obj e cfg m reason self =
     (Inr (Some (usdc, pos\<lparr>realized_pnl_usd := usdc - position_size_usdc pos\<rparr>)),
      closed_state e m (pos\<lparr>realized_pnl_usd := usdc - position_size_usdc pos\<rparr>) reason self)"
  using assms
  by (cases self)
     (simp add: close_position_obj_def unrealized_pnl_percent_cases Let_def log_trade_def
        save_state_def closed_state_def dict_delitem_setitem)

lemma close_position_obj_failure:
  assumes "map_of (positions self) m = Some pos"
    and "position_size_usdc pos \<noteq> 0"
    and "execute_sell e cfg self m (token_amount pos) = None"
  shows "close_position_obj e cfg m reason self = (Inr None, self)"
  using assms by (simp add: close_position_obj_def unrealized_pnl_percent_cases)

lemma close_position_obj_cases:
  assumes look: "map_of (positions self) m = Some pos"
  shows "close_position_obj e cfg m reason self = (Inl ZeroDivisionError, self) \<or>
         close_position_obj e cfg m reason self = (Inr None, self) \<or>
         (\<exists>usdc. close_position_obj e cfg m reason self =
            (Inr (Some (usdc, pos\<lparr>realized_pnl_usd := usdc - position_size_usdc pos\<rparr>)),
             closed_state e m (pos\<lparr>realized_pnl_usd := usdc - position_size_usdc pos\<rparr>)
               reason self))"
proof (cases "position_size_usdc pos = 0")
  case True
  from close_position_obj_raises [OF look True] show ?thesis by simp
next
  case nz: False
  show ?thesis
  proof (cases "execute_sell e cfg self m (token_amount pos)")
    case None
    from close_position_obj_failure [OF look nz None] show ?thesis by simp
  next
    case (Some usdc)
    from close_position_obj_success [OF look nz Some] show ?thesis by blast
  qed
qed

text \<open>
  The four outcomes of the loop body for a position that is in the dict: nothing but a
  possible price refresh, an exception with the price refreshed, or a close.
\<close>

lemma check_one_cases:
  assumes look: "map_of (positions self) m = Some pos"
  shows "check_one e cfg prices m pos actions self = (Inr actions, self) \<or>
         (\<exists>pr. check_one e cfg prices m pos actions self =
            (Inr actions,
             self\<lparr>positions := dict_setitem (positions self) m (pos\<lparr>current_price_usd := pr\<rparr>)\<rparr>)) \<or>
         (\<exists>pr. check_one e cfg prices m pos actions self =
            (Inl ZeroDivisionError,
             self\<lparr>positions := dict_setitem (positions self) m (pos\<lparr>current_price_usd := pr\<rparr>)\<rparr>)) \<or>
         (\<exists>pr a p' reason. check_one e cfg prices m pos actions self =
            (Inr (actions @ [a]),
             closed_state e m p' reason
               (self\<lparr>positions :=
                  dict_setitem (positions self) m (pos\<lparr>current_price_usd := pr\<rparr>)\<rparr>)))"
proof (cases "map_of prices m")
  case None
  then show ?thesis by (simp add: check_one_def)
next
  case (Some pr)
  let ?pos1 = "pos\<lparr>current_price_usd := pr\<rparr>"
  let ?self1 = "self\<lparr>positions := dict_setitem (positions self) m ?pos1\<rparr>"
  have l1: "map_of (positions ?self1) m = Some ?pos1" by (simp add: map_of_dict_setitem)
  show ?thesis
  proof (cases "should_stop_loss ?pos1")
    case True
    from close_position_obj_cases [OF l1, of e cfg "''stop_loss''"] show ?thesis
    proof (elim disjE exE)
      assume "close_position_obj e cfg m ''stop_loss'' ?self1 = (Inl ZeroDivisionError, ?self1)"
      with Some True have "check_one e cfg prices m pos actions self
                             = (Inl ZeroDivisionError, ?self1)"
        by (simp add: check_one_def Let_def)
      then show ?thesis by blast
    next
      assume "close_position_obj e cfg m ''stop_loss'' ?self1 = (Inr None, ?self1)"
      with Some True have "check_one e cfg prices m pos actions self = (Inr actions, ?self1)"
        by (simp add: check_one_def Let_def)
      then show ?thesis by blast
    next
      fix usdc
      assume "close_position_obj e cfg m ''stop_loss'' ?self1 =
            (Inr (Some (usdc, ?pos1\<lparr>realized_pnl_usd := usdc - position_size_usdc ?pos1\<rparr>)),
             closed_state e m (?pos1\<lparr>realized_pnl_usd := usdc - position_size_usdc ?pos1\<rparr>)
               ''stop_loss'' ?self1)"
      with Some True have "\<exists>a. check_one e cfg prices m pos actions self =
            (Inr (actions @ [a]),
             closed_state e m (?pos1\<lparr>realized_pnl_usd := usdc - position_size_usdc ?pos1\<rparr>)
               ''stop_loss'' ?self1)"
        by (simp add: check_one_def Let_def)
      then show ?thesis by blast
    qed
  next
    case nsl: False
    show ?thesis
    proof (cases "should_take_profit ?pos1")
      case False
      with Some nsl have "check_one e cfg prices m pos actions self = (Inr actions, ?self1)"
        by (simp add: check_one_def Let_def)
      then show ?thesis by blast
    next
      case True
      from close_position_obj_cases [OF l1, of e cfg "''take_profit''"] show ?thesis
      proof (elim disjE exE)
        assume "close_position_obj e cfg m ''take_profit'' ?self1
                  = (Inl ZeroDivisionError, ?self1)"
        with Some nsl True have "check_one e cfg prices m pos actions self
                               = (Inl ZeroDivisionError, ?self1)"
          by (simp add: check_one_def Let_def)
        then show ?thesis by blast
      next
        assume "close_position_obj e cfg m ''take_profit'' ?self1 = (Inr None, ?self1)"
        with Some nsl True
        have "check_one e cfg prices m pos actions self = (Inr actions, ?self1)"
          by (simp add: check_one_def Let_def)
        then show ?thesis by blast
      next
        fix usdc
        assume "close_position_obj e cfg m ''take_profit'' ?self1 =
            (Inr (Some (usdc, ?pos1\<lparr>realized_pnl_usd := usdc - position_size_usdc ?pos1\<rparr>)),
             closed_state e m (?pos1\<lparr>realized_pnl_usd := usdc - position_size_usdc ?pos1\<rparr>)
               ''take_profit'' ?self1)"
        with Some nsl True have "\<exists>a. check_one e cfg prices m pos actions self =
            (Inr (actions @ [a]),
             closed_state e m (?pos1\<lparr>realized_pnl_usd := usdc - position_size_usdc ?pos1\<rparr>)
               ''take_profit'' ?self1)"
          by (simp add: check_one_def Let_def)
        then show ?thesis by blast
      qed
    qed
  qed
qed

lemma positions_closed_state:
  "positions (closed_state e m p' reason
      (self\<lparr>positions := dict_setitem (positions self) m p1\<rparr>))
     = dict_delitem (positions self) m"
  by (simp add: closed_state_def dict_delitem_setitem)

lemma check_one_frame:
  assumes look: "map_of (positions self) m = Some pos"
    and one: "check_one e cfg prices m pos actions self = (Inr actions', self')"
  shows "(actions' = actions \<and> trade_history self' = trade_history self \<and>
          wallet_public_key self' = wallet_public_key self \<and>
          length (positions self') = length (positions self)) \<or>
         length (positions self') < length (positions self)"
  using check_one_cases [OF look, of e cfg prices actions]
proof (elim disjE exE)
  assume "check_one e cfg prices m pos actions self = (Inr actions, self)"
  with one show ?thesis by simp
next
  fix pr
  assume "check_one e cfg prices m pos actions self =
            (Inr actions,
             self\<lparr>positions := dict_setitem (positions self) m (pos\<lparr>current_price_usd := pr\<rparr>)\<rparr>)"
  with one length_dict_setitem [OF look] show ?thesis by auto
next
  fix pr
  assume "check_one e cfg prices m pos actions self =
            (Inl ZeroDivisionError,
             self\<lparr>positions := dict_setitem (positions self) m (pos\<lparr>current_price_usd := pr\<rparr>)\<rparr>)"
  with one show ?thesis by simp
next
  fix pr a p' reason
  assume "check_one e cfg prices m pos actions self =
            (Inr (actions @ [a]),
             closed_state e m p' reason
               (self\<lparr>positions :=
                  dict_setitem (positions self) m (pos\<lparr>current_price_usd := pr\<rparr>)\<rparr>))"
  with one have "positions self' = dict_delitem (positions self) m"
    by (auto simp: positions_closed_state)
  with length_dict_delitem [OF look] show ?thesis by simp
qed


lemma check_loop_size_changed:
  "length (positions self) \<noteq> used \<Longrightarrow>
   check_loop e cfg used prices ms actions self = (Inl RuntimeError, self)"
  by (cases ms) simp_all

lemma check_loop_frame:
  "check_loop e cfg used prices ms actions self = (Inr acts, self') \<Longrightarrow>
   acts = actions \<and> trade_history self' = trade_history self \<and>
   wallet_public_key self' = wallet_public_key self \<and> length (positions self') = used"
proof (induction ms arbitrary: actions self)
  case Nil
  then show ?case by (simp split: if_splits)
next
  case (Cons m ms)
  from Cons.prems have len: "length (positions self) = used"
    by (simp split: if_splits)
  from Cons.prems len obtain pos where look: "map_of (positions self) m = Some pos"
    by (cases "map_of (positions self) m") simp_all
  obtain r self1 where one: "check_one e cfg prices m pos actions self = (r, self1)"
    by (cases "check_one e cfg prices m pos actions self")
  from Cons.prems len look one obtain actions1 where
    r: "r = Inr actions1" and
    rest: "check_loop e cfg used prices ms actions1 self1 = (Inr acts, self')"
    by (cases r) simp_all
  from one r have one': "check_one e cfg prices m pos actions self = (Inr actions1, self1)"
    by simp
  from check_one_frame [OF look one']
  show ?case
  proof
    assume same: "actions1 = actions \<and> trade_history self1 = trade_history self \<and>
          wallet_public_key self1 = wallet_public_key self \<and>
          length (positions self1) = length (positions self)"
    from Cons.IH [OF rest] same show ?thesis by simp
  next
    assume "length (positions self1) < length (positions self)"
    with len have "length (positions self1) \<noteq> used" by simp
    from check_loop_size_changed [OF this, of e cfg prices ms actions1] rest
    show ?thesis by simp
  qed
qed



lemma check_positions_never_returns_an_action:
  "check_positions e cfg self = (Inr acts, self') \<Longrightarrow> acts = []"
proof (cases "positions self = []")
  case True
  assume "check_positions e cfg self = (Inr acts, self')"
  with True show ?thesis by (simp add: check_positions_def)
next
  case False
  assume "check_positions e cfg self = (Inr acts, self')"
  with False have "check_loop e cfg (length (positions self))
      (get_token_prices e (map fst (positions self))) (map fst (positions self)) [] self
      = (Inr acts, self')"
    by (simp add: check_positions_def Let_def)
  from check_loop_frame [OF this] show ?thesis by simp
qed


lemma check_one_both_success:
  assumes pr: "map_of prices m = Some pr"
    and sl: "pr \<le> stop_loss_price pos"
    and nz: "position_size_usdc pos \<noteq> 0"
    and sell: "execute_sell e cfg self m (token_amount pos) = Some usdc"
  shows "check_one e cfg prices m pos actions self =
     (Inr (actions @ [\<lparr>act_action = ''stop_loss'', act_mint = m, act_symbol = symbol pos,
                       act_pnl_usd = usdc - position_size_usdc pos\<rparr>]),
      closed_state e m
        (pos\<lparr>current_price_usd := pr, realized_pnl_usd := usdc - position_size_usdc pos\<rparr>)
        ''stop_loss'' self)"
proof -
  let ?pos1 = "pos\<lparr>current_price_usd := pr\<rparr>"
  let ?self1 = "self\<lparr>positions := dict_setitem (positions self) m ?pos1\<rparr>"
  have l: "map_of (positions ?self1) m = Some ?pos1"
    by (simp add: map_of_dict_setitem)
  have n: "position_size_usdc ?pos1 \<noteq> 0" using nz by simp
  have s: "execute_sell e cfg ?self1 m (token_amount ?pos1) = Some usdc"
    using sell by (simp add: execute_sell_positions)
  have c: "close_position_obj e cfg m ''stop_loss'' ?self1 =
     (Inr (Some (usdc, ?pos1\<lparr>realized_pnl_usd := usdc - position_size_usdc ?pos1\<rparr>)),
      closed_state e m (?pos1\<lparr>realized_pnl_usd := usdc - position_size_usdc ?pos1\<rparr>)
        ''stop_loss'' ?self1)"
    by (rule close_position_obj_success [OF l n s])
  have st: "closed_state e m (?pos1\<lparr>realized_pnl_usd := usdc - position_size_usdc ?pos1\<rparr>)
        ''stop_loss'' ?self1
      = closed_state e m
        (pos\<lparr>current_price_usd := pr, realized_pnl_usd := usdc - position_size_usdc pos\<rparr>)
        ''stop_loss'' self"
    by (simp add: closed_state_def dict_delitem_setitem)
  from sl have t: "should_stop_loss ?pos1" by (simp add: should_stop_loss_def)
  show ?thesis
    unfolding check_one_def Let_def pr option.case
    by (simp only: t if_True c st prod.case option.case sum.case) simp
qed
















lemma ex_sell: "execute_sell ex_env ex_config self m a = Some 40"
  by (simp add: execute_sell_def ex_env_def dict_get_def Let_def)

lemma ex_check_one_a:
  "check_one ex_env ex_config [(''AAA'', 0.5), (''BBB'', 2)] ''AAA'' ex_pos_a [] ex_manager =
     (Inr [\<lparr>act_action = ''stop_loss'', act_mint = ''AAA'', act_symbol = ''A'',
            act_pnl_usd = - 10\<rparr>],
      closed_state ex_env ''AAA''
        (ex_pos_a\<lparr>current_price_usd := 0.5, realized_pnl_usd := - 10\<rparr>) ''stop_loss''
        ex_manager)"
proof -
  have pr: "map_of [(''AAA'', 0.5::real), (''BBB'', 2)] ''AAA'' = Some 0.5" by simp
  have sl: "(0.5::real) \<le> stop_loss_price ex_pos_a" by (simp add: ex_pos_a_def)
  have nz: "position_size_usdc ex_pos_a \<noteq> 0" by (simp add: ex_pos_a_def)
  have sell: "execute_sell ex_env ex_config ex_manager ''AAA'' (token_amount ex_pos_a)
                = Some 40"
    by (rule ex_sell)
  have v: "40 - position_size_usdc ex_pos_a = - 10" "symbol ex_pos_a = ''A''"
    by (simp_all add: ex_pos_a_def)
  from check_one_both_success [OF pr sl nz sell, of "[]"] show ?thesis
    by (simp only: v append_Nil)
qed

text \<open>
  C1 does not hold of the code. \<^verbatim>\<open>close_position\<close> deletes the closed position from
  \<^verbatim>\<open>self.positions\<close> while \<^verbatim>\<open>check_positions\<close> is iterating over that dict, so the next
  step of the iteration raises RuntimeError. In the manager below \<open>AAA\<close> is at its stop and
  \<open>BBB\<close> above its take-profit: \<open>AAA\<close> is closed (one CLOSE record, reason \<open>stop_loss\<close>),
  then the call ends with the exception instead of a list, and \<open>BBB\<close> is left as it was,
  its price not refreshed and its take-profit not acted on.
\<close>

theorem check_positions_raises_after_a_close:
  "fst (check_positions ex_env ex_config ex_manager) = Inl RuntimeError \<and>
   positions (snd (check_positions ex_env ex_config ex_manager)) = [(''BBB'', ex_pos_b)] \<and>
   map tr_reason (trade_history (snd (check_positions ex_env ex_config ex_manager)))
     = [''stop_loss''] \<and>
   map_of (get_token_prices ex_env (map fst (positions ex_manager))) ''BBB'' = Some 2 \<and>
   current_price_usd ex_pos_b = 1 \<and>
   should_take_profit (ex_pos_b\<lparr>current_price_usd := 2\<rparr>)"
proof -
  let ?closed = "closed_state ex_env ''AAA''
        (ex_pos_a\<lparr>current_price_usd := 0.5, realized_pnl_usd := - 10\<rparr>) ''stop_loss''
        ex_manager"
  have ps: "positions ex_manager = [(''AAA'', ex_pos_a), (''BBB'', ex_pos_b)]"
    by (simp add: ex_manager_def)
  have prices: "get_token_prices ex_env [''AAA'', ''BBB''] = [(''AAA'', 0.5), (''BBB'', 2)]"
    by (simp add: ex_env_def)
  have pc: "positions ?closed = [(''BBB'', ex_pos_b)]"
    by (simp add: closed_state_def dict_delitem_def ps)
  have changed: "length (positions ?closed) \<noteq> length (positions ex_manager)"
    unfolding pc ps by simp
  have ne: "(positions ex_manager = []) = False" by (simp add: ps)
  have keys: "map fst (positions ex_manager) = [''AAA'', ''BBB'']" by (simp add: ps)
  have look: "map_of (positions ex_manager) ''AAA'' = Some ex_pos_a" by (simp add: ps)
  have "check_positions ex_env ex_config ex_manager
          = check_loop ex_env ex_config (length (positions ex_manager))
              [(''AAA'', 0.5), (''BBB'', 2)] [''AAA'', ''BBB''] [] ex_manager"
    unfolding check_positions_def Let_def
    by (simp only: ne if_False keys prices)
  also have "\<dots> = check_loop ex_env ex_config (length (positions ex_manager))
              [(''AAA'', 0.5), (''BBB'', 2)] [''BBB'']
              [\<lparr>act_action = ''stop_loss'', act_mint = ''AAA'', act_symbol = ''A'',
                 act_pnl_usd = - 10\<rparr>] ?closed"
    by (simp only: check_loop.simps look ex_check_one_a option.case prod.case sum.case
        if_False simp_thms)
  also have "\<dots> = (Inl RuntimeError, ?closed)"
    by (rule check_loop_size_changed [OF changed])
  finally have r: "check_positions ex_env ex_config ex_manager = (Inl RuntimeError, ?closed)" .
  have h: "map tr_reason (trade_history ?closed) = [''stop_loss'']"
    by (simp add: closed_state_def ex_manager_def)
  have f: "map_of (get_token_prices ex_env (map fst (positions ex_manager))) ''BBB'' = Some 2"
    by (simp add: ps prices)
  have c: "current_price_usd ex_pos_b = 1" by (simp add: ex_pos_b_def)
  have t: "should_take_profit (ex_pos_b\<lparr>current_price_usd := 2\<rparr>)"
    by (simp add: should_take_profit_def ex_pos_b_def)
  show ?thesis
    unfolding r fst_conv snd_conv
    apply (intro conjI)
         apply (rule refl)
        apply (rule pc)
       apply (rule h)
      apply (rule f)
     apply (rule c)
    apply (rule t)
    done
qed

end
